theory Spec2Isabelle
  imports Complex_Main "HOL-Library.AList" "HOL-Library.Multiset" "HOL-Library.Log_Nat"
begin

section \<open>Data model of the weather screen\<close>

text \<open>
  The screen \<open>src/app/(tabs)/index.tsx\<close> consumes the OpenWeather forecast list and
  turns it into view models. A JavaScript number is a double; the model has the finite
  ones, by their mathematical value: a timestamp \<open>dt\<close> (seconds since the epoch) is an
  \<open>int\<close>, a temperature is a \<open>real\<close>. \<open>NaN\<close> and the infinities are not values of the
  model; the API delivers numbers as JSON, which has neither. Comparison, \<open>Math.min\<close>,
  \<open>Math.max\<close> and \<open>Math.round\<close> are exact on doubles. Multiplication, division and
  addition are not: their result is the double nearest to the exact one, and the model
  rounds it where the source computes it (see the section on unit conversion).
\<close>

text \<open>One element of \<open>weather\<close>: \<open>{ main: string; description: string }\<close>.\<close>

record weather_cond =
  w_main :: string
  w_description :: string

text \<open>The \<open>main\<close> object of a forecast sample: \<open>{ temp_min: number; temp_max: number }\<close>.\<close>

record main_temps =
  temp_min :: real
  temp_max :: real

text \<open>\<open>interface ForecastAPIItem\<close>: one 3-hour sample of the API.\<close>

record ForecastAPIItem =
  dt :: int
  main :: main_temps
  weather :: "weather_cond list"

type_synonym ForecastAPIList = "ForecastAPIItem list"

text \<open>
  \<open>interface ForecastItem\<close>: one compacted day. Its fields \<open>dt\<close>, \<open>main\<close>,
  \<open>desc\<close>, \<open>temp_min\<close>, \<open>temp_max\<close> carry the prefix \<open>fi_\<close> here, since a field
  name is a constant of the theory.
\<close>

record ForecastItem =
  fi_dt :: int
  fi_main :: string
  fi_desc :: string
  fi_temp_min :: real
  fi_temp_max :: real

text \<open>
  The value stored under a day key in \<open>byDay\<close>:
  \<open>{ dt, temp_min, temp_max, weather }\<close>, where \<open>weather\<close> is \<open>item.weather[0]\<close>,
  which is \<open>undefined\<close> (\<open>None\<close>) when the sample's \<open>weather\<close> array is empty.
\<close>

record bucket =
  b_dt :: int
  b_temp_min :: real
  b_temp_max :: real
  b_weather :: "weather_cond option"

text \<open>An element of \<open>datasets\<close> in \<open>interface HourlyData\<close>: \<open>{ data: number[] }\<close>.\<close>

record dataset =
  data :: "int list"

section \<open>Unit conversion\<close>

text \<open>
  An arithmetic operation on doubles returns the double nearest to the exact result. The
  rounding of a real to a double is the platform's and is the parameter \<open>fl\<close> of
  everything that computes; the product, quotient and sum of the source are these.
\<close>

definition fl_mul :: "(real \<Rightarrow> real) \<Rightarrow> real \<Rightarrow> real \<Rightarrow> real" where
  "fl_mul fl a b = fl (a * b)"

definition fl_div :: "(real \<Rightarrow> real) \<Rightarrow> real \<Rightarrow> real \<Rightarrow> real" where
  "fl_div fl a b = fl (a / b)"

definition fl_add :: "(real \<Rightarrow> real) \<Rightarrow> real \<Rightarrow> real \<Rightarrow> real" where
  "fl_add fl a b = fl (a + b)"

text \<open>
  \<open>Math.round\<close> returns the integer nearest to a double, a tie towards \<open>+\<infinity>\<close>: it
  is \<open>\<lfloor>x + 1/2\<rfloor>\<close>, which is how \<^const>\<open>round\<close> is defined, and it is exact.

  \<open>displayTemp\<close> reads the state variable \<open>units\<close>, a string that is \<open>'metric'\<close> or
  \<open>'imperial'\<close>; it is the argument \<open>unit_system\<close> here. The source writes
  \<open>(temp * 9/5) + 32\<close>, which is \<open>((temp * 9) / 5) + 32\<close>: three operations, each
  rounded. The constants 9, 5 and 32 are doubles.
\<close>

definition displayTemp :: "(real \<Rightarrow> real) \<Rightarrow> string \<Rightarrow> real \<Rightarrow> int" where
  "displayTemp fl unit_system temp =
     (let t = (if unit_system = ''imperial''
               then fl_add fl (fl_div fl (fl_mul fl temp 9) 5) 32
               else temp)
      in round t)"

text \<open>
  \<open>displaySpeed\<close> scales the speed and formats it with \<open>toFixed(1)\<close>. The literal
  \<open>2.237\<close> denotes the double nearest to it. The formatting of a number with one decimal
  is the platform's; it is the parameter \<open>toFixed1\<close>.
\<close>

definition displaySpeed ::
  "(real \<Rightarrow> real) \<Rightarrow> (real \<Rightarrow> string) \<Rightarrow> string \<Rightarrow> real \<Rightarrow> string" where
  "displaySpeed fl toFixed1 unit_system speed =
     (let s = (if unit_system = ''imperial'' then fl_mul fl speed (fl 2.237) else speed)
      in toFixed1 s)"

section \<open>Condition-to-asset mapping\<close>

text \<open>
  Both lookups read a property of an object literal, \<open>map[String(weatherMain)]\<close>, and
  fall back with \<open>||\<close>. A property read on an object literal finds the literal's own
  properties first and then the members that every object inherits from
  \<open>Object.prototype\<close>, so \<open>map['constructor']\<close> is the function \<open>Object\<close>, not
  \<open>undefined\<close>. The result of a read is therefore one of three things.
\<close>

datatype 'a property = Own 'a | Inherited string | Undefined

definition object_prototype_members :: "string list" where
  "object_prototype_members =
     [''constructor'', ''hasOwnProperty'', ''isPrototypeOf'', ''propertyIsEnumerable'',
      ''toLocaleString'', ''toString'', ''valueOf'', ''__proto__'',
      ''__defineGetter__'', ''__defineSetter__'', ''__lookupGetter__'', ''__lookupSetter__'']"

definition get_property :: "(string \<times> 'a) list \<Rightarrow> string \<Rightarrow> 'a property" where
  "get_property obj key =
     (case map_of obj key of
        Some v \<Rightarrow> Own v
      | None \<Rightarrow> if key \<in> set object_prototype_members then Inherited key else Undefined)"

text \<open>
  \<open>String(weatherMain)\<close>: the string itself, and \<open>'undefined'\<close> for \<open>undefined\<close>.
\<close>

definition String_of :: "string option \<Rightarrow> string" where
  "String_of weatherMain = (case weatherMain of None \<Rightarrow> ''undefined'' | Some s \<Rightarrow> s)"

text \<open>
  What a lookup function returns: a value of its declared result type, or an inherited
  member of \<open>Object.prototype\<close> (a function or an object, which is truthy, so that
  \<open>||\<close> keeps it).
\<close>

datatype 'a looked_up = Asset 'a | Prototype_Member string

text \<open>
  \<open>p || fallback\<close>, for a map whose own values are all truthy (non-empty strings, objects).
\<close>

definition or_fallback :: "'a property \<Rightarrow> 'a \<Rightarrow> 'a looked_up" where
  "or_fallback p fallback =
     (case p of Own v \<Rightarrow> Asset v | Inherited m \<Rightarrow> Prototype_Member m | Undefined \<Rightarrow> Asset fallback)"

definition icon_map :: "(string \<times> string) list" where
  "icon_map =
     [(''Clear'', ''sunny''),
      (''Clouds'', ''cloudy''),
      (''Rain'', ''rainy''),
      (''Snow'', ''snow''),
      (''Thunderstorm'', ''thunderstorm''),
      (''Drizzle'', ''rainy-outline''),
      (''Mist'', ''cloudy-outline''),
      (''Smoke'', ''cloudy-outline''),
      (''Haze'', ''cloudy-outline''),
      (''Dust'', ''cloudy-outline''),
      (''Fog'', ''cloudy-outline''),
      (''Sand'', ''cloudy-outline''),
      (''Ash'', ''cloudy-outline''),
      (''Squall'', ''rainy-outline''),
      (''Tornado'', ''thunderstorm'')]"

definition getWeatherIcon :: "string option \<Rightarrow> string looked_up" where
  "getWeatherIcon weatherMain =
     or_fallback (get_property icon_map (String_of weatherMain)) ''partly-sunny''"

text \<open>An image reference is \<open>{ uri: string }\<close>; the model keeps the \<open>uri\<close>.\<close>

definition image_map :: "(string \<times> string) list" where
  "image_map =
     [(''Clear'', ''https://images.unsplash.com/photo-1541119638723-c51cbe2262aa?q=80&w=2070&auto=format&fit=crop''),
      (''Clouds'', ''https://images.unsplash.com/photo-1501630834273-4b5604d2ee31?q=80&w=2070&auto=format&fit=crop''),
      (''Rain'', ''https://images.unsplash.com/photo-1515694346937-94d85e41e622?q=80&w=1974&auto=format&fit=crop''),
      (''Snow'', ''https://images.unsplash.com/photo-1491002052546-bf38f186af56?q=80&w=2070&auto=format&fit=crop''),
      (''Thunderstorm'', ''https://images.unsplash.com/photo-1605727226424-ad25e2d00e69?q=80&w=1974&auto=format&fit=crop''),
      (''Drizzle'', ''https://images.unsplash.com/photo-1556485671-85b8a7f0e4a7?q=80&w=1974&auto=format&fit=crop''),
      (''Mist'', ''https://images.unsplash.com/photo-1485236715568-ddc5ee6ca227?q=80&w=1974&auto=format&fit=crop'')]"

definition default_image :: string where
  "default_image =
     ''https://images.unsplash.com/photo-1614483433234-5a715a4c4b32?q=80&w=1974&auto=format&fit=crop''"

definition getWeatherImage :: "string option \<Rightarrow> string looked_up" where
  "getWeatherImage weatherMain =
     or_fallback (get_property image_map (String_of weatherMain)) default_image"

section \<open>Day compaction\<close>

text \<open>
  \<open>compactForecast\<close> keys each sample by \<open>new Date(item.dt * 1000).toDateString()\<close>, the
  calendar day of the timestamp in the time zone of the device. The time zone is not part
  of the program, so the function from a timestamp to its day key is the parameter
  \<open>toDateString\<close>. A day key is only ever compared with other day keys; it reads
  \<open>'Mon Jan 01 2024'\<close> (or \<open>'Invalid Date'\<close>), which is neither an array index nor the
  name of a member of \<open>Object.prototype\<close>, so \<open>byDay\<close> behaves as a dictionary that
  keeps its keys in the order of their insertion: an association list, updated in place
  or extended at its end by \<^const>\<open>AList.update\<close>.
\<close>

text \<open>\<open>item.weather[0]\<close>\<close>

definition weather0 :: "ForecastAPIItem \<Rightarrow> weather_cond option" where
  "weather0 item = (case weather item of [] \<Rightarrow> None | w # _ \<Rightarrow> Some w)"

text \<open>The body of the \<open>forEach\<close> callback.\<close>

definition add_item ::
  "(int \<Rightarrow> 'k) \<Rightarrow> ('k \<times> bucket) list \<Rightarrow> ForecastAPIItem \<Rightarrow> ('k \<times> bucket) list" where
  "add_item toDateString byDay item =
     (let dayKey = toDateString (dt item) in
      case map_of byDay dayKey of
        None \<Rightarrow>
          AList.update dayKey
            \<lparr>b_dt = dt item,
             b_temp_min = temp_min (main item),
             b_temp_max = temp_max (main item),
             b_weather = weather0 item\<rparr> byDay
      | Some b \<Rightarrow>
          AList.update dayKey
            (b\<lparr>b_temp_min := min (b_temp_min b) (temp_min (main item)),
               b_temp_max := max (b_temp_max b) (temp_max (main item))\<rparr>) byDay)"

text \<open>\<open>list.forEach(...)\<close> on the empty object.\<close>

definition group_by_day :: "(int \<Rightarrow> 'k) \<Rightarrow> ForecastAPIList \<Rightarrow> ('k \<times> bucket) list" where
  "group_by_day toDateString list = foldl (add_item toDateString) [] list"

text \<open>The callback of the final \<open>map\<close>; \<open>it.weather?.main ?? ''\<close> is empty without a weather.\<close>

definition to_item :: "bucket \<Rightarrow> ForecastItem" where
  "to_item it =
     \<lparr>fi_dt = b_dt it,
      fi_main = (case b_weather it of None \<Rightarrow> [] | Some w \<Rightarrow> w_main w),
      fi_desc = (case b_weather it of None \<Rightarrow> [] | Some w \<Rightarrow> w_description w),
      fi_temp_min = b_temp_min it,
      fi_temp_max = b_temp_max it\<rparr>"

text \<open>
  \<open>Object.values(byDay).sort((a, b) => a.dt - b.dt).slice(0, 5).map(...)\<close>. The sort is
  stable, as \<^const>\<open>sort_key\<close> is.
\<close>

definition compactForecast :: "(int \<Rightarrow> 'k) \<Rightarrow> ForecastAPIList \<Rightarrow> ForecastItem list" where
  "compactForecast toDateString list =
     map to_item (take 5 (sort_key b_dt (map snd (group_by_day toDateString list))))"

section \<open>Hourly slice\<close>

text \<open>Decimal digits of a natural number, as a template literal prints it.\<close>

fun digits_of_nat :: "nat \<Rightarrow> string" where
  "digits_of_nat n =
     (if n < 10 then [''0123456789'' ! n]
      else digits_of_nat (n div 10) @ [''0123456789'' ! (n mod 10)])"

declare digits_of_nat.simps [simp del]

text \<open>
  \<open>new Date(item.dt * 1000).getHours()\<close> is the hour of the timestamp in the device's
  time zone, the parameter \<open>getHours\<close>; it is \<open>NaN\<close> (\<open>None\<close>) for a timestamp outside
  the range of \<open>Date\<close>. The label is \<open>`${dt.getHours()}:00`\<close>.
\<close>

definition hour_label :: "(int \<Rightarrow> nat option) \<Rightarrow> ForecastAPIItem \<Rightarrow> string" where
  "hour_label getHours item =
     (case getHours (dt item) of None \<Rightarrow> ''NaN'' | Some h \<Rightarrow> digits_of_nat h) @ '':00''"

text \<open>\<open>item.weather[0]?.main\<close>\<close>

definition weather0_main :: "ForecastAPIItem \<Rightarrow> string option" where
  "weather0_main item = (case weather item of [] \<Rightarrow> None | w # _ \<Rightarrow> Some (w_main w))"

text \<open>
  \<open>interface HourlyData\<close>. The \<open>icons\<close> array holds what \<open>getWeatherIcon\<close> returns, so
  its elements are of that function's result type.
\<close>

record HourlyData =
  labels :: "string list"
  datasets :: "dataset list"
  icons :: "string looked_up list"

definition processHourlyForecast ::
  "(int \<Rightarrow> nat option) \<Rightarrow> ForecastAPIList \<Rightarrow> HourlyData option" where
  "processHourlyForecast getHours list =
     (if length list = 0 then None
      else
        let next24h = take 8 list in
        if length next24h < 2 then None
        else
          let labels' = map (hour_label getHours) next24h;
              data' = map (\<lambda>item. round (temp_max (main item))) next24h;
              icons' = map (\<lambda>item. getWeatherIcon (weather0_main item)) next24h
          in Some \<lparr>labels = labels', datasets = [\<lparr>data = data'\<rparr>], icons = icons'\<rparr>)"

section \<open>Screen state and its handlers\<close>

text \<open>\<open>interface Coords\<close> and \<open>interface WeatherData\<close>, the latter with its nested objects flattened.\<close>

record Coords =
  lat :: real
  lon :: real

record WeatherData =
  coord :: Coords
  wd_weather :: "weather_cond list"
  wd_temp :: real
  wd_feels_like :: real
  wd_humidity :: real
  wd_pressure :: real
  wd_visibility :: real
  wd_wind_speed :: real
  wd_clouds_all :: real
  name :: string

text \<open>
  The five literals passed to \<open>setError\<close>, each a non-empty string and so truthy:
  \<^item> \<open>Permiso_Denegado\<close>: 'Permiso de ubicacion denegado';
  \<^item> \<open>No_Ubicacion\<close>: 'No se pudo obtener la ubicacion actual';
  \<^item> \<open>No_Ciudad\<close>: 'No se encontro la ciudad. Intenta con otro nombre.';
  \<^item> \<open>Falta_API_Key\<close>: 'Falta la API Key (EXPO_PUBLIC_OPENWEATHER_API_KEY).';
  \<^item> \<open>Error_Datos\<close>: 'Error al obtener datos del clima. Revisa conexion o API key.'.
\<close>

datatype error_message =
  Permiso_Denegado | No_Ubicacion | No_Ciudad | Falta_API_Key | Error_Datos

text \<open>
  The text typed into the search field is a JavaScript string, a list of UTF-16 code
  units, since \<open>trim\<close> is defined on code points that a byte does not hold.
\<close>

type_synonym js_string = "nat list"

text \<open>The \<open>useState\<close> variables of \<open>WeatherScreen\<close>.\<close>

record state =
  loading :: bool
  refreshing :: bool
  error :: "error_message option"
  theme :: string
  infoModalVisible :: bool
  units :: string
  query :: js_string
  coords :: "Coords option"
  cityLabel :: string
  current :: "WeatherData option"
  forecast :: "ForecastItem list"
  hourlyForecast :: "HourlyData option"

text \<open>The initial values given to \<open>useState\<close>.\<close>

definition initial_state :: state where
  "initial_state =
     \<lparr>loading = True, refreshing = False, error = None, theme = ''light'',
      infoModalVisible = False, units = ''metric'', query = [], coords = None,
      cityLabel = [], current = None, forecast = [], hourlyForecast = None\<rparr>"

text \<open>
  A URL built by a template literal \<open>`${BASE}?k=${v}&...`\<close>, kept as its base and the
  list of its parameters. A value is literal text, a number printed by the template, or
  \<open>encodeURIComponent(query)\<close>.
\<close>

datatype param_value = Text string | Number real | Encoded js_string

record url =
  url_base :: string
  url_params :: "(string \<times> param_value) list"

definition CURRENT_URL :: string where
  "CURRENT_URL = ''https://api.openweathermap.org/data/2.5/weather''"

definition FORECAST_URL :: string where
  "FORECAST_URL = ''https://api.openweathermap.org/data/2.5/forecast''"

text \<open>What a handler asks of the platform, in the order in which it asks.\<close>

datatype effect =
  RequestForegroundPermissions | GetCurrentPosition | KeyboardDismiss | Fetch url

text \<open>An awaited platform call returns or throws.\<close>

datatype 'a outcome = Throws | Returns 'a

text \<open>
  An awaited \<open>fetch\<close> followed by \<open>.json()\<close>: either of them rejects (no network, no
  JSON), or there is a response whose \<open>ok\<close> is false (its body is only read for the text
  of an exception that the \<open>catch\<close> drops), or there is an \<open>ok\<close> response with a body.
\<close>

datatype 'a fetched = Rejected | Not_Ok | Ok_Body 'a

text \<open>
  Everything outside the component that a handler depends on: the build-time
  \<open>API_KEY\<close> (\<open>undefined\<close> is \<open>None\<close>), the answers of \<open>expo-location\<close> and of the two
  endpoints, and the time zone functions of \<open>Date\<close>. The body of the forecast endpoint
  is its \<open>list\<close>, which \<open>fData?.list || []\<close> lets be absent.
\<close>

record 'k env =
  API_KEY :: "string option"
  requestForegroundPermissionsAsync :: "string outcome"
  getCurrentPositionAsync :: "Coords outcome"
  fetch_current :: "url \<Rightarrow> WeatherData fetched"
  fetch_forecast :: "url \<Rightarrow> ForecastAPIList option fetched"
  toDateString :: "int \<Rightarrow> 'k"
  getHours :: "int \<Rightarrow> nat option"

text \<open>\<open>Boolean(API_KEY)\<close>\<close>

definition canFetch :: "'k env \<Rightarrow> bool" where
  "canFetch e = (case API_KEY e of None \<Rightarrow> False | Some k \<Rightarrow> k \<noteq> [])"

definition current_url_by_coords :: "'k env \<Rightarrow> real \<Rightarrow> real \<Rightarrow> url" where
  "current_url_by_coords e la lo =
     \<lparr>url_base = CURRENT_URL,
      url_params = [(''lat'', Number la), (''lon'', Number lo),
                    (''appid'', Text (String_of (API_KEY e))),
                    (''units'', Text ''metric''), (''lang'', Text ''es'')]\<rparr>"

definition forecast_url_by_coords :: "'k env \<Rightarrow> real \<Rightarrow> real \<Rightarrow> url" where
  "forecast_url_by_coords e la lo =
     \<lparr>url_base = FORECAST_URL,
      url_params = [(''lat'', Number la), (''lon'', Number lo),
                    (''appid'', Text (String_of (API_KEY e))),
                    (''units'', Text ''metric''), (''lang'', Text ''es'')]\<rparr>"

definition current_url_by_city :: "'k env \<Rightarrow> param_value \<Rightarrow> url" where
  "current_url_by_city e q =
     \<lparr>url_base = CURRENT_URL,
      url_params = [(''q'', q),
                    (''appid'', Text (String_of (API_KEY e))),
                    (''units'', Text ''metric''), (''lang'', Text ''es'')]\<rparr>"

text \<open>\<open>fData?.list || []\<close>\<close>

definition list_or_empty :: "ForecastAPIList option \<Rightarrow> ForecastAPIList" where
  "list_or_empty fData = (case fData of None \<Rightarrow> [] | Some l \<Rightarrow> l)"

text \<open>
  \<open>fetchAll\<close>. Both fetches are started before either is awaited; any rejection and any
  response that is not \<open>ok\<close> ends in the one \<open>catch\<close>.
\<close>

definition fetchAll :: "'k env \<Rightarrow> Coords \<Rightarrow> state \<Rightarrow> state \<times> effect list" where
  "fetchAll e c st =
     (if \<not> canFetch e then (st\<lparr>error := Some Falta_API_Key\<rparr>, [])
      else
        let currentUrl = current_url_by_coords e (lat c) (lon c);
            forecastUrl = forecast_url_by_coords e (lat c) (lon c);
            asked = [Fetch currentUrl, Fetch forecastUrl]
        in case (fetch_current e currentUrl, fetch_forecast e forecastUrl) of
             (Ok_Body cData, Ok_Body fData) \<Rightarrow>
               (st\<lparr>current := Some cData,
                   cityLabel := name cData,
                   forecast := compactForecast (toDateString e) (list_or_empty fData),
                   hourlyForecast := processHourlyForecast (getHours e) (list_or_empty fData)\<rparr>,
                asked)
           | _ \<Rightarrow> (st\<lparr>error := Some Error_Datos\<rparr>, asked))"

text \<open>\<open>initByGeolocation\<close>; the \<open>finally\<close> clears \<open>loading\<close> on every path.\<close>

definition initByGeolocation :: "'k env \<Rightarrow> state \<Rightarrow> state \<times> effect list" where
  "initByGeolocation e st =
     (let st1 = st\<lparr>error := None, loading := True\<rparr> in
      case requestForegroundPermissionsAsync e of
        Throws \<Rightarrow>
          (st1\<lparr>error := Some No_Ubicacion, loading := False\<rparr>, [RequestForegroundPermissions])
      | Returns status \<Rightarrow>
          if status \<noteq> ''granted'' then
            (st1\<lparr>error := Some Permiso_Denegado, loading := False\<rparr>,
             [RequestForegroundPermissions])
          else
            (case getCurrentPositionAsync e of
               Throws \<Rightarrow>
                 (st1\<lparr>error := Some No_Ubicacion, loading := False\<rparr>,
                  [RequestForegroundPermissions, GetCurrentPosition])
             | Returns c \<Rightarrow>
                 let (st2, asked) = fetchAll e c (st1\<lparr>coords := Some c\<rparr>)
                 in (st2\<lparr>loading := False\<rparr>,
                     [RequestForegroundPermissions, GetCurrentPosition] @ asked)))"

text \<open>
  \<open>String.prototype.trim\<close> removes white space and line terminators from both ends:
  TAB, LF, VT, FF, CR, SP, NBSP, U+1680, U+2000 to U+200A, U+2028, U+2029, U+202F,
  U+205F, U+3000 and U+FEFF.
\<close>

definition is_white_space :: "nat \<Rightarrow> bool" where
  "is_white_space c =
     (c \<in> set [9, 10, 11, 12, 13, 32, 160, 5760, 8232, 8233, 8239, 8287, 12288, 65279]
      \<or> (8192 \<le> c \<and> c \<le> 8202))"

definition trim :: "js_string \<Rightarrow> js_string" where
  "trim s = rev (dropWhile is_white_space (rev (dropWhile is_white_space s)))"

text \<open>
  \<open>encodeURIComponent\<close> throws a \<open>URIError\<close> when its argument has a surrogate code
  unit that is not part of a pair: a low surrogate (U+DC00 to U+DFFF) that no high
  surrogate precedes, or a high surrogate (U+D800 to U+DBFF) that no low surrogate
  follows. Otherwise it returns the percent-encoding of the string, which the model keeps
  as \<open>Encoded\<close> of the string.
\<close>

definition is_high_surrogate :: "nat \<Rightarrow> bool" where
  "is_high_surrogate c = (55296 \<le> c \<and> c \<le> 56319)"

definition is_low_surrogate :: "nat \<Rightarrow> bool" where
  "is_low_surrogate c = (56320 \<le> c \<and> c \<le> 57343)"

fun well_formed :: "js_string \<Rightarrow> bool" where
  "well_formed [] = True"
| "well_formed [c] = (\<not> is_low_surrogate c \<and> \<not> is_high_surrogate c)"
| "well_formed (c # d # ds) =
     (if is_low_surrogate c then False
      else if is_high_surrogate c then is_low_surrogate d \<and> well_formed ds
      else well_formed (d # ds))"

definition encodeURIComponent :: "js_string \<Rightarrow> param_value outcome" where
  "encodeURIComponent s = (if well_formed s then Returns (Encoded s) else Throws)"

text \<open>
  \<open>searchByCity\<close>; \<open>!query.trim()\<close> holds when the trimmed string is empty. The URL of
  the first fetch is built inside the \<open>try\<close>, so an exception of
  \<open>encodeURIComponent(query)\<close> ends in the \<open>catch\<close> before anything is fetched.
\<close>

definition searchByCity :: "'k env \<Rightarrow> state \<Rightarrow> state \<times> effect list" where
  "searchByCity e st =
     (if trim (query st) = [] then (st, [])
      else
        let st1 = st\<lparr>error := None, loading := True\<rparr> in
        case encodeURIComponent (query st) of
          Throws \<Rightarrow> (st1\<lparr>error := Some No_Ciudad, loading := False\<rparr>, [KeyboardDismiss])
        | Returns q \<Rightarrow>
            (let currentUrl = current_url_by_city e q
             in case fetch_current e currentUrl of
                  Ok_Body cData \<Rightarrow>
                    (let st2 = st1\<lparr>coords := None, current := Some cData,
                                   cityLabel := name cData\<rparr>;
                         forecastUrl =
                           forecast_url_by_coords e (lat (coord cData)) (lon (coord cData));
                         asked = [KeyboardDismiss, Fetch currentUrl, Fetch forecastUrl]
                     in case fetch_forecast e forecastUrl of
                          Ok_Body fData \<Rightarrow>
                            (st2\<lparr>forecast :=
                                   compactForecast (toDateString e) (list_or_empty fData),
                                 hourlyForecast :=
                                   processHourlyForecast (getHours e) (list_or_empty fData),
                                 loading := False\<rparr>,
                             asked)
                        | _ \<Rightarrow> (st2\<lparr>error := Some No_Ciudad, loading := False\<rparr>, asked))
                | _ \<Rightarrow>
                    (st1\<lparr>error := Some No_Ciudad, loading := False\<rparr>,
                     [KeyboardDismiss, Fetch currentUrl])))"

text \<open>\<open>toggleUnits\<close>\<close>

definition toggleUnits :: "state \<Rightarrow> state" where
  "toggleUnits st = st\<lparr>units := (if units st = ''metric'' then ''imperial'' else ''metric'')\<rparr>"

text \<open>\<open>refreshData\<close>; \<open>!query\<close> holds for the empty string.\<close>

definition refreshData :: "'k env \<Rightarrow> state \<Rightarrow> state \<times> effect list" where
  "refreshData e st =
     (if coords st = None \<and> query st = [] then (st, [])
      else
        let st1 = st\<lparr>loading := True, error := None\<rparr>;
            (st2, asked) = (case coords st of
                             Some c \<Rightarrow> fetchAll e c st1
                           | None \<Rightarrow> searchByCity e st1)
        in (st2\<lparr>loading := False\<rparr>, asked))"

text \<open>
  What the component returns: the loading view, the error view (the message and one
  button, whose \<open>onPress\<close> is \<open>initByGeolocation\<close>), or the main view.
\<close>

datatype handler = InitByGeolocation | SearchByCity | ToggleUnits | OnRefresh

datatype screen = Loading_View | Error_View error_message handler | Main_View

definition render :: "state \<Rightarrow> screen" where
  "render st =
     (if loading st then Loading_View
      else case error st of
             Some msg \<Rightarrow> Error_View msg InitByGeolocation
           | None \<Rightarrow> Main_View)"

section \<open>Vocabulary of the specification\<close>

text \<open>
  The words the properties of day compaction are stated in: the samples of the input that
  fall on a day, in input order; the days of the input, in the order of their first
  sample; the summary of a non-empty list of samples of one day.
\<close>

definition samples_of_day :: "(int \<Rightarrow> 'k) \<Rightarrow> ForecastAPIList \<Rightarrow> 'k \<Rightarrow> ForecastAPIList" where
  "samples_of_day tds l k = filter (\<lambda>item. tds (dt item) = k) l"

definition days_in_order :: "(int \<Rightarrow> 'k) \<Rightarrow> ForecastAPIList \<Rightarrow> 'k list" where
  "days_in_order tds l = rev (remdups (rev (map (\<lambda>item. tds (dt item)) l)))"

definition summary :: "ForecastAPIList \<Rightarrow> bucket" where
  "summary ss =
     \<lparr>b_dt = dt (hd ss),
      b_temp_min = Min (set (map (\<lambda>item. temp_min (main item)) ss)),
      b_temp_max = Max (set (map (\<lambda>item. temp_max (main item)) ss)),
      b_weather = weather0 (hd ss)\<rparr>"

definition day_summaries :: "(int \<Rightarrow> 'k) \<Rightarrow> ForecastAPIList \<Rightarrow> bucket list" where
  "day_summaries tds l = map (\<lambda>k. summary (samples_of_day tds l k)) (days_in_order tds l)"

text \<open>
  The timestamp of the first sample of a day, and the at most five days whose first
  samples have the smallest timestamps.
\<close>

definition first_dt :: "(int \<Rightarrow> 'k) \<Rightarrow> ForecastAPIList \<Rightarrow> 'k \<Rightarrow> int" where
  "first_dt tds l k = dt (hd (samples_of_day tds l k))"

definition earliest_days :: "(int \<Rightarrow> 'k) \<Rightarrow> ForecastAPIList \<Rightarrow> 'k list" where
  "earliest_days tds l = take 5 (sort_key (first_dt tds l) (days_in_order tds l))"

text \<open>
  The entry that the specification promises for a day: the timestamp, condition and
  description of the day's first sample, and the least \<open>temp_min\<close> and the greatest
  \<open>temp_max\<close> among the day's samples.
\<close>

definition day_entry :: "(int \<Rightarrow> 'k) \<Rightarrow> ForecastAPIList \<Rightarrow> 'k \<Rightarrow> ForecastItem" where
  "day_entry tds l k =
     (let ss = samples_of_day tds l k in
      \<lparr>fi_dt = dt (hd ss),
       fi_main = (case weather (hd ss) of [] \<Rightarrow> [] | w # _ \<Rightarrow> w_main w),
       fi_desc = (case weather (hd ss) of [] \<Rightarrow> [] | w # _ \<Rightarrow> w_description w),
       fi_temp_min = Min (set (map (\<lambda>item. temp_min (main item)) ss)),
       fi_temp_max = Max (set (map (\<lambda>item. temp_max (main item)) ss))\<rparr>)"

text \<open>
  Calendar days are intervals of time: a timestamp between two timestamps of one day is
  of that day.
\<close>

definition days_are_intervals :: "(int \<Rightarrow> 'k) \<Rightarrow> bool" where
  "days_are_intervals tds = (\<forall>a b c. a \<le> b \<and> b \<le> c \<and> tds a = tds c \<longrightarrow> tds b = tds a)"

text \<open>
  A failure path of a handler, read off the environment: \<open>fetchAll\<close> fails without a
  credential, or when a fetch rejects (no network) or answers with a response that is not
  \<open>ok\<close>; \<open>initByGeolocation\<close> fails when the permission request throws or is not
  granted, when the position is unavailable, or when its \<open>fetchAll\<close> fails;
  \<open>searchByCity\<close> fails when the query cannot be encoded or when either of its two
  fetches fails; \<open>refreshData\<close> fails as the handler it runs does.
\<close>

definition is_ok :: "'a fetched \<Rightarrow> bool" where
  "is_ok r = (case r of Ok_Body _ \<Rightarrow> True | _ \<Rightarrow> False)"

definition fetchAll_failure :: "'k env \<Rightarrow> Coords \<Rightarrow> bool" where
  "fetchAll_failure e c =
     (\<not> canFetch e
      \<or> \<not> is_ok (fetch_current e (current_url_by_coords e (lat c) (lon c)))
      \<or> \<not> is_ok (fetch_forecast e (forecast_url_by_coords e (lat c) (lon c))))"

definition geolocation_failure :: "'k env \<Rightarrow> bool" where
  "geolocation_failure e =
     (case requestForegroundPermissionsAsync e of
        Throws \<Rightarrow> True
      | Returns status \<Rightarrow>
          status \<noteq> ''granted''
          \<or> (case getCurrentPositionAsync e of
                Throws \<Rightarrow> True
              | Returns c \<Rightarrow> fetchAll_failure e c))"

definition search_failure :: "'k env \<Rightarrow> js_string \<Rightarrow> bool" where
  "search_failure e q =
     (case encodeURIComponent q of
        Throws \<Rightarrow> True
      | Returns v \<Rightarrow>
          (case fetch_current e (current_url_by_city e v) of
             Ok_Body cData \<Rightarrow>
               \<not> is_ok (fetch_forecast e
                          (forecast_url_by_coords e (lat (coord cData)) (lon (coord cData))))
           | _ \<Rightarrow> True))"

definition refresh_failure :: "'k env \<Rightarrow> state \<Rightarrow> bool" where
  "refresh_failure e st =
     (case coords st of
        Some c \<Rightarrow> fetchAll_failure e c
      | None \<Rightarrow> trim (query st) \<noteq> [] \<and> search_failure e (query st))"

text \<open>
  The message of a failure path. It is fixed by the handler and by the stage at which the
  path fails, and by nothing else: not by the text of the exception, not by whether a
  fetch rejected or was answered with a response that is not \<open>ok\<close>, not by which of the
  two endpoints failed. Every failure of \<open>searchByCity\<close> has the message \<open>No_Ciudad\<close>.
\<close>

definition fetchAll_message :: "'k env \<Rightarrow> error_message" where
  "fetchAll_message e = (if \<not> canFetch e then Falta_API_Key else Error_Datos)"

definition geolocation_message :: "'k env \<Rightarrow> error_message" where
  "geolocation_message e =
     (case requestForegroundPermissionsAsync e of
        Throws \<Rightarrow> No_Ubicacion
      | Returns status \<Rightarrow>
          if status \<noteq> ''granted'' then Permiso_Denegado
          else (case getCurrentPositionAsync e of
                  Throws \<Rightarrow> No_Ubicacion
                | Returns c \<Rightarrow> fetchAll_message e))"

definition refresh_message :: "'k env \<Rightarrow> state \<Rightarrow> error_message" where
  "refresh_message e st =
     (case coords st of Some c \<Rightarrow> fetchAll_message e | None \<Rightarrow> No_Ciudad)"

text \<open>A request is for metric units when it is not a fetch or its \<open>units\<close> parameter is \<open>metric\<close>.\<close>

definition asks_metric :: "effect \<Rightarrow> bool" where
  "asks_metric a =
     (case a of Fetch u \<Rightarrow> map_of (url_params u) ''units'' = Some (Text ''metric'') | _ \<Rightarrow> True)"

text \<open>What a fetch stores: the current conditions, the forecast and the hourly series.\<close>

definition stored :: "state \<Rightarrow> WeatherData option \<times> ForecastItem list \<times> HourlyData option" where
  "stored st = (current st, forecast st, hourlyForecast st)"

text \<open>
  For examples: the day of a device whose time zone is UTC, as the number of days since
  the epoch, its hour, and samples: \<open>sample_a\<close> and \<open>sample_c\<close> of the second day of
  1970, \<open>sample_b\<close> of the first day, \<open>sample_d\<close> of the sixth, and a list of samples
  of six days that does not come in the order of time.
\<close>

definition utc_day :: "int \<Rightarrow> int" where
  "utc_day d = d div 86400"

definition utc_hours :: "int \<Rightarrow> nat option" where
  "utc_hours d = Some (nat ((d div 3600) mod 24))"

definition sample_a :: ForecastAPIItem where
  "sample_a =
     \<lparr>dt = 90000, main = \<lparr>temp_min = 11, temp_max = 15\<rparr>,
      weather = [\<lparr>w_main = ''Rain'', w_description = ''lluvia ligera''\<rparr>]\<rparr>"

definition sample_b :: ForecastAPIItem where
  "sample_b =
     \<lparr>dt = 3600, main = \<lparr>temp_min = 8, temp_max = 12.5\<rparr>,
      weather = [\<lparr>w_main = ''Clear'', w_description = ''cielo claro''\<rparr>]\<rparr>"

definition sample_c :: ForecastAPIItem where
  "sample_c =
     \<lparr>dt = 100800, main = \<lparr>temp_min = 9.5, temp_max = 17\<rparr>, weather = []\<rparr>"

definition sample_d :: ForecastAPIItem where
  "sample_d =
     \<lparr>dt = 435600, main = \<lparr>temp_min = -2, temp_max = 1\<rparr>,
      weather = [\<lparr>w_main = ''Snow'', w_description = ''nevada''\<rparr>]\<rparr>"

definition sample_at :: "int \<Rightarrow> ForecastAPIItem" where
  "sample_at t =
     \<lparr>dt = t, main = \<lparr>temp_min = 10, temp_max = 20\<rparr>,
      weather = [\<lparr>w_main = ''Clouds'', w_description = ''nubes''\<rparr>]\<rparr>"

definition six_days :: ForecastAPIList where
  "six_days =
     [sample_d, sample_a, sample_b, sample_c,
      sample_at 176400, sample_at 262800, sample_at 349200]"

text \<open>
  For examples: an environment given by its answers, with the time zone UTC; a body of
  the current-conditions endpoint; the query \<open>'Lima'\<close>; a position; an environment
  whose forecast endpoint answers with a response that is not \<open>ok\<close>, and one where
  both endpoints answer.
\<close>

definition example_env ::
  "string option \<Rightarrow> string outcome \<Rightarrow> Coords outcome \<Rightarrow> WeatherData fetched \<Rightarrow>
   ForecastAPIList option fetched \<Rightarrow> int env" where
  "example_env key perm pos cur fc =
     \<lparr>API_KEY = key, requestForegroundPermissionsAsync = perm,
      getCurrentPositionAsync = pos, fetch_current = (\<lambda>_. cur), fetch_forecast = (\<lambda>_. fc),
      toDateString = utc_day, getHours = utc_hours\<rparr>"

definition lima_weather :: WeatherData where
  "lima_weather =
     \<lparr>coord = \<lparr>lat = -12.04, lon = -77.03\<rparr>,
      wd_weather = [\<lparr>w_main = ''Clouds'', w_description = ''nubes''\<rparr>],
      wd_temp = 19.4, wd_feels_like = 19.1, wd_humidity = 78, wd_pressure = 1015,
      wd_visibility = 10000, wd_wind_speed = 4.1, wd_clouds_all = 75, name = ''Lima''\<rparr>"

definition lima_query :: js_string where
  "lima_query = [76, 105, 109, 97]"

definition device_position :: Coords where
  "device_position = \<lparr>lat = -12, lon = -77\<rparr>"

definition env_forecast_fails :: "int env" where
  "env_forecast_fails =
     example_env (Some ''key'') (Returns ''granted'') (Returns device_position)
       (Ok_Body lima_weather) Not_Ok"

definition env_online :: "int env" where
  "env_online =
     example_env (Some ''key'') (Returns ''granted'') (Returns device_position)
       (Ok_Body lima_weather) (Ok_Body (Some [sample_a, sample_b, sample_c]))"

definition env_denied :: "int env" where
  "env_denied =
     example_env (Some ''key'') (Returns ''denied'') (Returns device_position)
       (Ok_Body lima_weather) (Ok_Body (Some [sample_a, sample_b, sample_c]))"

text \<open>A query of one high surrogate, which \<open>encodeURIComponent\<close> rejects.\<close>

definition lone_surrogate_query :: js_string where
  "lone_surrogate_query = [55357]"

text \<open>A query of a space, a tab, a no-break space and a line feed.\<close>

definition blank_query :: js_string where
  "blank_query = [32, 9, 160, 10]"

text \<open>
  For examples: the rounding of IEEE 754 binary64, to the nearest double with a tie to the
  even significand, on the range of the finite doubles. The doubles are the integer
  multiples of \<open>2 ^ - 1074\<close> with a significand of at most 53 bits. A real is scaled
  by \<open>2 ^ 1074\<close>; the integer part of its magnitude has \<open>bitlen\<close> bits, of which 53
  are kept: the magnitude is rounded to a multiple of \<open>2 ^ (bitlen - 53)\<close>, or to an
  integer when it has no more than 53 bits (the subnormal doubles).
\<close>

definition round_half_even :: "real \<Rightarrow> int" where
  "round_half_even x =
     (let n = \<lfloor>x\<rfloor> in
      if x - of_int n < 1 / 2 then n
      else if 1 / 2 < x - of_int n then n + 1
      else if even n then n else n + 1)"

definition grid_shift :: "real \<Rightarrow> nat" where
  "grid_shift X = nat (bitlen \<lfloor>X\<rfloor> - 53)"

definition grid_round :: "real \<Rightarrow> real" where
  "grid_round X = 2 ^ grid_shift X * of_int (round_half_even (X / 2 ^ grid_shift X))"

definition round_to_grid :: "nat \<Rightarrow> real \<Rightarrow> real" where
  "round_to_grid k x = sgn x * grid_round (\<bar>x\<bar> * 2 ^ k) / 2 ^ k"

definition binary64 :: "real \<Rightarrow> real" where
  "binary64 = round_to_grid 1074"

text \<open>The double \<open>2.5 - 2 ^ - 51\<close>, the greatest double below \<open>2.5\<close>.\<close>

definition below_two_and_a_half :: real where
  "below_two_and_a_half = 5629499534213119 / 2251799813685248"

section \<open>Unit conversion: properties\<close>

lemmas sample_defs = sample_a_def sample_b_def sample_c_def sample_d_def sample_at_def

lemma displayTemp_imperial:
  "displayTemp fl ''imperial'' t = round (fl_add fl (fl_div fl (fl_mul fl t 9) 5) 32)"
  by (simp add: displayTemp_def)

lemma displayTemp_metric: "displayTemp fl ''metric'' t = round t"
  by (simp add: displayTemp_def)

lemma fahrenheit_mono:
  assumes "mono fl" and "t1 \<le> t2"
  shows "fl_add fl (fl_div fl (fl_mul fl t1 9) 5) 32 \<le> fl_add fl (fl_div fl (fl_mul fl t2 9) 5) 32"
proof -
  from assms(2) have "t1 * 9 \<le> t2 * 9" by simp
  with assms(1) have m: "fl_mul fl t1 9 \<le> fl_mul fl t2 9"
    unfolding fl_mul_def by (rule monoD)
  then have "fl_mul fl t1 9 / 5 \<le> fl_mul fl t2 9 / 5" by simp
  with assms(1) have d: "fl_div fl (fl_mul fl t1 9) 5 \<le> fl_div fl (fl_mul fl t2 9) 5"
    unfolding fl_div_def by (rule monoD)
  then have "fl_div fl (fl_mul fl t1 9) 5 + 32 \<le> fl_div fl (fl_mul fl t2 9) 5 + 32" by simp
  with assms(1) show ?thesis
    unfolding fl_add_def by (rule monoD)
qed

text \<open>
  Claim C6. \<open>displayTemp\<close> is monotone in the Celsius temperature whatever the unit mode
  is, for every rounding of the arithmetic that is monotone, as rounding to the nearest
  double is; in imperial mode it is \<open>round ((t * 9 / 5) + 32)\<close>, with the product, the
  quotient and the sum of doubles, and in metric mode \<open>round t\<close>.
\<close>

theorem displayTemp_monotone:
  assumes "mono fl"
  shows "(t1 \<le> t2 \<longrightarrow> displayTemp fl u t1 \<le> displayTemp fl u t2)
   \<and> displayTemp fl ''imperial'' t = round (fl_add fl (fl_div fl (fl_mul fl t 9) 5) 32)
   \<and> displayTemp fl ''metric'' t = round t"
proof (intro conjI impI)
  assume le: "t1 \<le> t2"
  show "displayTemp fl u t1 \<le> displayTemp fl u t2"
  proof (cases "u = ''imperial''")
    case True
    then show ?thesis
      using fahrenheit_mono [OF assms le] by (simp add: displayTemp_def round_mono)
  next
    case False
    then show ?thesis using le by (simp add: displayTemp_def round_mono)
  qed
qed (simp_all add: displayTemp_imperial displayTemp_metric)

subsection \<open>The rounding of binary64 is monotone\<close>

lemma round_half_even_bounds:
  "\<lfloor>x\<rfloor> \<le> round_half_even x \<and> round_half_even x \<le> \<lfloor>x\<rfloor> + 1"
  by (simp add: round_half_even_def Let_def)

lemma round_half_even_of_int [simp]: "round_half_even (of_int n) = n"
  by (simp add: round_half_even_def)

lemma round_half_even_zero [simp]: "round_half_even 0 = 0"
  using round_half_even_of_int [of 0] by simp

lemma round_half_even_mono:
  assumes "x \<le> y"
  shows "round_half_even x \<le> round_half_even y"
proof (cases "\<lfloor>x\<rfloor> = \<lfloor>y\<rfloor>")
  case True
  with assms show ?thesis
    by (auto simp: round_half_even_def Let_def)
next
  case False
  with assms have "\<lfloor>x\<rfloor> + 1 \<le> \<lfloor>y\<rfloor>"
    using floor_mono [of x y] by linarith
  with round_half_even_bounds [of x] round_half_even_bounds [of y] show ?thesis
    by linarith
qed

lemma bitlen_mono: "a \<le> b \<Longrightarrow> bitlen a \<le> bitlen b"
  by (simp add: bitlen_def floorlog_mono)

lemma grid_shift_mono: "X \<le> Y \<Longrightarrow> grid_shift X \<le> grid_shift Y"
  unfolding grid_shift_def
  using bitlen_mono [of "\<lfloor>X\<rfloor>" "\<lfloor>Y\<rfloor>"] floor_mono [of X Y] by linarith

lemma below_top:
  assumes "0 \<le> X"
  shows "X < 2 ^ (grid_shift X + 53)"
proof (cases "0 < \<lfloor>X\<rfloor>")
  case True
  then have "\<lfloor>X\<rfloor> < 2 ^ nat (bitlen \<lfloor>X\<rfloor>)" using bitlen_bounds by blast
  also have "nat (bitlen \<lfloor>X\<rfloor>) \<le> grid_shift X + 53"
    by (simp add: grid_shift_def)
  then have "(2::int) ^ nat (bitlen \<lfloor>X\<rfloor>) \<le> 2 ^ (grid_shift X + 53)"
    by (rule power_increasing) simp
  finally have "\<lfloor>X\<rfloor> < 2 ^ (grid_shift X + 53)" .
  then have "X < of_int (2 ^ (grid_shift X + 53))" by (simp only: floor_less_iff)
  then show ?thesis by simp
next
  case False
  then have "X < 1" by linarith
  also have "(1::real) \<le> 2 ^ (grid_shift X + 53)" by simp
  finally show ?thesis .
qed

lemma above_bottom:
  assumes "0 < grid_shift X"
  shows "2 ^ (grid_shift X + 52) \<le> X"
proof -
  from assms have b: "bitlen \<lfloor>X\<rfloor> = int (grid_shift X) + 53"
    by (simp add: grid_shift_def)
  then have pos: "0 < \<lfloor>X\<rfloor>" using bitlen_eq_zero_iff [of "\<lfloor>X\<rfloor>"] by linarith
  then have "2 ^ nat (bitlen \<lfloor>X\<rfloor> - 1) \<le> \<lfloor>X\<rfloor>" using bitlen_bounds by blast
  moreover have "nat (bitlen \<lfloor>X\<rfloor> - 1) = grid_shift X + 52" using b by simp
  ultimately have "2 ^ (grid_shift X + 52) \<le> \<lfloor>X\<rfloor>" by simp
  then have "of_int (2 ^ (grid_shift X + 52)) \<le> X" by (simp only: le_floor_iff)
  then show ?thesis by simp
qed

lemma grid_round_le_top:
  assumes "0 \<le> X"
  shows "grid_round X \<le> 2 ^ (grid_shift X + 53)"
proof -
  let ?s = "grid_shift X"
  have "X / 2 ^ ?s \<le> 2 ^ 53"
    using below_top [OF assms] by (simp add: power_add field_simps)
  then have "round_half_even (X / 2 ^ ?s) \<le> round_half_even (of_int (2 ^ 53))"
    using round_half_even_mono [of "X / 2 ^ ?s" "of_int (2 ^ 53)"] by simp
  then have "round_half_even (X / 2 ^ ?s) \<le> 2 ^ 53" by (simp only: round_half_even_of_int)
  then have "(of_int (round_half_even (X / 2 ^ ?s)) :: real) \<le> 2 ^ 53"
    using of_int_le_iff [where ?'a = real, of "round_half_even (X / 2 ^ ?s)" "2 ^ 53"] by simp
  then have "2 ^ ?s * (of_int (round_half_even (X / 2 ^ ?s)) :: real) \<le> 2 ^ ?s * 2 ^ 53"
    by (rule mult_left_mono) simp
  then show ?thesis by (simp add: grid_round_def power_add)
qed

lemma grid_round_ge_bottom:
  assumes "0 < grid_shift X"
  shows "2 ^ (grid_shift X + 52) \<le> grid_round X"
proof -
  let ?s = "grid_shift X"
  have "2 ^ 52 \<le> X / 2 ^ ?s"
    using above_bottom [OF assms] by (simp add: power_add field_simps)
  then have "round_half_even (of_int (2 ^ 52)) \<le> round_half_even (X / 2 ^ ?s)"
    using round_half_even_mono [of "of_int (2 ^ 52)" "X / 2 ^ ?s"] by simp
  then have "2 ^ 52 \<le> round_half_even (X / 2 ^ ?s)" by (simp only: round_half_even_of_int)
  then have "(2 ^ 52 :: real) \<le> of_int (round_half_even (X / 2 ^ ?s))"
    using of_int_le_iff [where ?'a = real, of "2 ^ 52" "round_half_even (X / 2 ^ ?s)"] by simp
  then have "2 ^ ?s * (2 ^ 52 :: real) \<le> 2 ^ ?s * of_int (round_half_even (X / 2 ^ ?s))"
    by (rule mult_left_mono) simp
  then show ?thesis by (simp add: grid_round_def power_add)
qed

lemma grid_round_nonneg:
  assumes "0 \<le> X"
  shows "0 \<le> grid_round X"
proof -
  have "0 \<le> X / 2 ^ grid_shift X" using assms by simp
  then have "round_half_even 0 \<le> round_half_even (X / 2 ^ grid_shift X)"
    by (rule round_half_even_mono)
  then have "0 \<le> round_half_even (X / 2 ^ grid_shift X)"
    using round_half_even_of_int [of 0] by simp
  then show ?thesis by (simp add: grid_round_def)
qed

lemma grid_round_mono:
  assumes "0 \<le> X" and "X \<le> Y"
  shows "grid_round X \<le> grid_round Y"
proof (cases "grid_shift X = grid_shift Y")
  case True
  have "X / 2 ^ grid_shift Y \<le> Y / 2 ^ grid_shift Y"
    using assms(2) by (simp add: divide_right_mono)
  then have "round_half_even (X / 2 ^ grid_shift Y) \<le> round_half_even (Y / 2 ^ grid_shift Y)"
    by (rule round_half_even_mono)
  then show ?thesis by (simp add: grid_round_def True)
next
  case False
  with grid_shift_mono [OF assms(2)] have lt: "grid_shift X < grid_shift Y" by simp
  then have pos: "0 < grid_shift Y" by simp
  have "grid_round X \<le> 2 ^ (grid_shift X + 53)" using assms(1) by (rule grid_round_le_top)
  also have "(2::real) ^ (grid_shift X + 53) \<le> 2 ^ (grid_shift Y + 52)"
    using lt by (intro power_increasing) simp_all
  also have "\<dots> \<le> grid_round Y" using pos by (rule grid_round_ge_bottom)
  finally show ?thesis .
qed

lemma grid_round_zero [simp]: "grid_round 0 = 0"
  by (simp add: grid_round_def)

lemma mono_round_to_grid: "mono (round_to_grid k)"
proof (rule monoI)
  fix x y :: real
  assume le: "x \<le> y"
  let ?c = "(2::real) ^ k"
  have c: "0 < ?c" by simp
  have nn: "0 \<le> \<bar>x\<bar> * ?c" "0 \<le> \<bar>y\<bar> * ?c" by simp_all
  consider "0 \<le> x" | "y \<le> 0" | "x < 0" "0 < y" by linarith
  then show "round_to_grid k x \<le> round_to_grid k y"
  proof cases
    case 1
    with le have y: "0 \<le> y" by simp
    have "\<bar>x\<bar> * ?c \<le> \<bar>y\<bar> * ?c"
      using 1 y le by (intro mult_right_mono) simp_all
    with nn(1) have "grid_round (\<bar>x\<bar> * ?c) \<le> grid_round (\<bar>y\<bar> * ?c)"
      by (rule grid_round_mono)
    moreover have "round_to_grid k x = grid_round (\<bar>x\<bar> * ?c) / ?c"
      using 1 by (cases "x = 0") (simp_all add: round_to_grid_def)
    moreover have "round_to_grid k y = grid_round (\<bar>y\<bar> * ?c) / ?c"
      using y by (cases "y = 0") (simp_all add: round_to_grid_def)
    ultimately show ?thesis by (simp add: divide_right_mono)
  next
    case 2
    with le have x: "x \<le> 0" by simp
    have "\<bar>y\<bar> * ?c \<le> \<bar>x\<bar> * ?c"
      using 2 x le by (intro mult_right_mono) simp_all
    with nn(2) have "grid_round (\<bar>y\<bar> * ?c) \<le> grid_round (\<bar>x\<bar> * ?c)"
      by (rule grid_round_mono)
    moreover have "round_to_grid k x = - (grid_round (\<bar>x\<bar> * ?c) / ?c)"
      using x by (cases "x = 0") (simp_all add: round_to_grid_def)
    moreover have "round_to_grid k y = - (grid_round (\<bar>y\<bar> * ?c) / ?c)"
      using 2 by (cases "y = 0") (simp_all add: round_to_grid_def)
    ultimately show ?thesis by (simp add: divide_right_mono)
  next
    case 3
    have "0 \<le> grid_round (\<bar>x\<bar> * ?c)" "0 \<le> grid_round (\<bar>y\<bar> * ?c)"
      using nn by (simp_all only: grid_round_nonneg)
    then have "round_to_grid k x \<le> 0" "0 \<le> round_to_grid k y"
      using 3 by (simp_all add: round_to_grid_def)
    then show ?thesis by simp
  qed
qed


lemma mono_binary64: "mono binary64"
  unfolding binary64_def by (rule mono_round_to_grid)

lemma bitlen_eqI:
  assumes "2 ^ n \<le> a" and "a < 2 ^ Suc n"
  shows "bitlen a = int n + 1"
proof -
  have "(0::int) < 2 ^ n" by simp
  with assms(1) have pos: "0 < a" by linarith
  have "bitlen a \<le> int (Suc n) \<longleftrightarrow> 0 \<le> int (Suc n) \<and> a < 2 ^ nat (int (Suc n))"
    by (rule bitlen_le_iff_power)
  then have "bitlen a \<le> int (Suc n)"
    unfolding nat_int using assms(2) by simp
  moreover have "nat (int n + 1) - 1 = n" by simp
  then have "int n + 1 \<le> bitlen a"
    unfolding bitlen_ge_iff_power using assms(1) by simp
  ultimately show ?thesis by simp
qed

lemma round_to_grid_binade:
  assumes lo: "2 powi e \<le> \<bar>x\<bar>" and hi: "\<bar>x\<bar> < 2 powi (e + 1)" and e: "52 \<le> e + int k"
  shows "round_to_grid k x =
           sgn x * of_int (round_half_even (\<bar>x\<bar> * 2 powi (52 - e))) * 2 powi (e - 52)"
proof -
  let ?X = "\<bar>x\<bar> * 2 ^ k"
  let ?n = "nat (e + int k)"
  let ?s = "nat (e + int k - 52)"
  have k: "(2::real) ^ k = 2 powi (int k)" by simp
  have n: "(2::real) ^ ?n = 2 powi (e + int k)"
    using e by (simp add: power_int_def)
  have "nat (e + 1 + int k) = Suc ?n" using e by linarith
  then have n1: "(2::real) ^ Suc ?n = 2 powi (e + 1 + int k)"
    using e by (simp add: power_int_def)
  have s: "(2::real) ^ ?s = 2 powi (e + int k - 52)"
    using e by (simp add: power_int_def)
  have "2 powi e * 2 powi (int k) \<le> \<bar>x\<bar> * 2 powi (int k)"
    using lo by (intro mult_right_mono) simp_all
  then have lo': "2 ^ ?n \<le> ?X"
    unfolding n k by (simp add: power_int_add)
  have "\<bar>x\<bar> * 2 powi (int k) < 2 powi (e + 1) * 2 powi (int k)"
    using hi by (intro mult_strict_right_mono) simp_all
  then have hi': "?X < 2 ^ Suc ?n"
    unfolding n1 k by (simp add: power_int_add)
  from lo' have "of_int (2 ^ ?n) \<le> ?X" by simp
  then have fl_lo: "2 ^ ?n \<le> \<lfloor>?X\<rfloor>" by (simp only: le_floor_iff)
  from hi' have "?X < of_int (2 ^ Suc ?n)" by simp
  then have fl_hi: "\<lfloor>?X\<rfloor> < 2 ^ Suc ?n" by (simp only: floor_less_iff)
  have "bitlen \<lfloor>?X\<rfloor> = int ?n + 1" using fl_lo fl_hi by (rule bitlen_eqI)
  then have shift: "grid_shift ?X = ?s" using e by (simp add: grid_shift_def)
  have split: "(2::real) powi (e + int k - 52) = 2 powi (e - 52) * 2 powi (int k)"
  proof -
    have "e + int k - 52 = (e - 52) + int k" by simp
    moreover have "(2::real) powi ((e - 52) + int k) = 2 powi (e - 52) * 2 powi (int k)"
      by (rule power_int_add) simp
    ultimately show ?thesis by (simp only:)
  qed
  have inv: "(2::real) powi (e - 52) * 2 powi (52 - e) = 1"
  proof -
    have "(2::real) powi ((e - 52) + (52 - e)) = 2 powi (e - 52) * 2 powi (52 - e)"
      by (rule power_int_add) simp
    then show ?thesis by simp
  qed
  have pk: "(2::real) powi (int k) \<noteq> 0" "(2::real) powi (e - 52) \<noteq> 0" by simp_all
  have "?X / 2 ^ ?s = \<bar>x\<bar> * 2 powi (int k) / (2 powi (e - 52) * 2 powi (int k))"
    unfolding s split k ..
  also have "\<dots> = \<bar>x\<bar> / 2 powi (e - 52)" using pk(1) by simp
  also have "\<dots> = \<bar>x\<bar> * 2 powi (52 - e)"
    using inv pk(2) by (simp add: field_simps)
  finally have q: "?X / 2 ^ ?s = \<bar>x\<bar> * 2 powi (52 - e)" .
  have "round_to_grid k x
        = sgn x * (2 ^ ?s * of_int (round_half_even (\<bar>x\<bar> * 2 powi (52 - e)))) / 2 ^ k"
    unfolding round_to_grid_def grid_round_def shift q ..
  also have "\<dots> = sgn x * (2 powi (e - 52) * 2 powi (int k)
                     * of_int (round_half_even (\<bar>x\<bar> * 2 powi (52 - e)))) / 2 powi (int k)"
    unfolding s split k ..
  also have "\<dots> = sgn x * of_int (round_half_even (\<bar>x\<bar> * 2 powi (52 - e))) * 2 powi (e - 52)"
    using pk(1) by simp
  finally show ?thesis .
qed


subsection \<open>Examples\<close>

text \<open>
  In the binade of \<open>e\<close>, from \<open>2 powi e\<close> up to \<open>2 powi (e + 1)\<close>, the doubles are
  the multiples of \<open>2 powi (e - 52)\<close>.
\<close>

lemma binary64_binade:
  assumes "2 powi e \<le> \<bar>x\<bar>" and "\<bar>x\<bar> < 2 powi (e + 1)" and "- 1022 \<le> e"
  shows "binary64 x =
           sgn x * of_int (round_half_even (\<bar>x\<bar> * 2 powi (52 - e))) * 2 powi (e - 52)"
  unfolding binary64_def using assms by (intro round_to_grid_binade) simp_all

text \<open>
  At the greatest double below \<open>2.5\<close> the three roundings matter: the doubles give
  \<open>36.5\<close>, which \<open>Math.round\<close> takes to 37, where the exact value is below \<open>36.5\<close>
  and rounds to 36.
\<close>

lemma below_two_and_a_half_times_9:
  "fl_mul binary64 below_two_and_a_half 9 = 6333186975989759 / 281474976710656"
  unfolding fl_mul_def below_two_and_a_half_def
  by (subst binary64_binade [where e = 4]) (simp_all add: round_half_even_def)

lemma below_two_and_a_half_div_5:
  "fl_div binary64 (6333186975989759 / 281474976710656) 5
     = 5066549580791807 / 1125899906842624"
  unfolding fl_div_def
  by (subst binary64_binade [where e = 2]) (simp_all add: round_half_even_def)

lemma below_two_and_a_half_plus_32:
  "fl_add binary64 (5066549580791807 / 1125899906842624) 32 = 73 / 2"
  unfolding fl_add_def
  by (subst binary64_binade [where e = 5]) (simp_all add: round_half_even_def)

lemma displayTemp_below_two_and_a_half:
  "displayTemp binary64 ''imperial'' below_two_and_a_half = 37"
  by (simp add: displayTemp_def below_two_and_a_half_times_9 below_two_and_a_half_div_5
      below_two_and_a_half_plus_32 round_def)

lemma exact_below_two_and_a_half: "round ((below_two_and_a_half * 9 / 5) + 32) = 36"
  by (simp add: below_two_and_a_half_def round_def)

lemma displayTemp_two_and_a_half: "displayTemp binary64 ''imperial'' (5 / 2) = 37"
proof -
  have a: "fl_mul binary64 (5 / 2) 9 = 45 / 2"
    unfolding fl_mul_def
    by (subst binary64_binade [where e = 4]) (simp_all add: round_half_even_def)
  have b: "fl_div binary64 (45 / 2) 5 = 9 / 2"
    unfolding fl_div_def
    by (subst binary64_binade [where e = 2]) (simp_all add: round_half_even_def)
  have c: "fl_add binary64 (9 / 2) 32 = 73 / 2"
    unfolding fl_add_def
    by (subst binary64_binade [where e = 5]) (simp_all add: round_half_even_def)
  show ?thesis by (simp add: displayTemp_def a b c round_def)
qed

lemma displayTemp_20: "displayTemp binary64 ''imperial'' 20 = 68"
proof -
  have a: "fl_mul binary64 20 9 = 180"
    unfolding fl_mul_def
    by (subst binary64_binade [where e = 7]) (simp_all add: round_half_even_def)
  have b: "fl_div binary64 180 5 = 36"
    unfolding fl_div_def
    by (subst binary64_binade [where e = 5]) (simp_all add: round_half_even_def)
  have c: "fl_add binary64 36 32 = 68"
    unfolding fl_add_def
    by (subst binary64_binade [where e = 6]) (simp_all add: round_half_even_def)
  show ?thesis by (simp add: displayTemp_def a b c)
qed

theorem displayTemp_monotone_witness:
  "mono binary64
   \<and> below_two_and_a_half \<le> 5 / 2
   \<and> displayTemp binary64 ''imperial'' below_two_and_a_half
       \<le> displayTemp binary64 ''imperial'' (5 / 2)
   \<and> displayTemp binary64 ''imperial'' below_two_and_a_half = 37
   \<and> displayTemp binary64 ''imperial'' 20 = 68
   \<and> displayTemp binary64 ''metric'' 20 = 20"
proof -
  have le: "below_two_and_a_half \<le> 5 / 2" by (simp add: below_two_and_a_half_def)
  note inst = displayTemp_monotone [OF mono_binary64, of below_two_and_a_half "5 / 2" _ 20]
  from inst [of "''imperial''"] le
  have "displayTemp binary64 ''imperial'' below_two_and_a_half
        \<le> displayTemp binary64 ''imperial'' (5 / 2)"
    by blast
  moreover from inst [of "''imperial''"] have "displayTemp binary64 ''metric'' 20 = 20"
    by simp
  ultimately show ?thesis
    using mono_binary64 le displayTemp_below_two_and_a_half displayTemp_20 by simp
qed

section \<open>Hourly slice: properties\<close>

text \<open>
  Claim C3. \<open>processHourlyForecast\<close> returns \<open>null\<close> exactly for the lists of fewer
  than two samples, the empty list among them.
\<close>

theorem processHourlyForecast_null:
  "processHourlyForecast gh l = None \<longleftrightarrow> length l < 2"
  by (auto simp: processHourlyForecast_def Let_def)

text \<open>
  Claim C4. On a list of \<open>n \<ge> 2\<close> samples the result is not \<open>null\<close>; it has one
  dataset, and its labels, the data of that dataset and its icons all have length
  \<open>min n 8\<close>, the \<open>i\<close>-th of each computed from the \<open>i\<close>-th sample of the input.
\<close>

theorem processHourlyForecast_shape:
  assumes "2 \<le> length l"
  shows "\<exists>r d. processHourlyForecast gh l = Some r
          \<and> datasets r = [d]
          \<and> length (labels r) = min (length l) 8
          \<and> length (data d) = min (length l) 8
          \<and> length (icons r) = min (length l) 8
          \<and> (\<forall>i < min (length l) 8.
                labels r ! i = hour_label gh (l ! i)
              \<and> data d ! i = round (temp_max (main (l ! i)))
              \<and> icons r ! i = getWeatherIcon (weather0_main (l ! i)))"
  using assms by (auto simp add: processHourlyForecast_def Let_def min.commute)

subsection \<open>Examples\<close>

theorem processHourlyForecast_null_witness:
  "processHourlyForecast utc_hours [] = None
   \<and> processHourlyForecast utc_hours [sample_a] = None
   \<and> processHourlyForecast utc_hours [sample_a, sample_b] \<noteq> None"
  using processHourlyForecast_null [of utc_hours "[]"]
    processHourlyForecast_null [of utc_hours "[sample_a]"]
    processHourlyForecast_null [of utc_hours "[sample_a, sample_b]"]
  by simp

lemma hour_label_examples:
  "hour_label utc_hours sample_a = ''1:00''"
  "hour_label utc_hours sample_c = ''4:00''"
  "hour_label utc_hours (sample_at 82800) = ''23:00''"
  by (simp_all add: hour_label_def utc_hours_def sample_defs digits_of_nat.simps)

theorem processHourlyForecast_shape_witness:
  "2 \<le> length [sample_a, sample_b, sample_c]
   \<and> (\<exists>r d. processHourlyForecast utc_hours [sample_a, sample_b, sample_c] = Some r
          \<and> datasets r = [d]
          \<and> length (labels r) = 3 \<and> length (data d) = 3 \<and> length (icons r) = 3
          \<and> labels r ! 2 = ''4:00''
          \<and> data d ! 1 = 13
          \<and> icons r ! 0 = Asset ''rainy'')"
proof -
  have h: "2 \<le> length [sample_a, sample_b, sample_c]" by simp
  from processHourlyForecast_shape [OF h, of utc_hours]
  obtain r d where r: "processHourlyForecast utc_hours [sample_a, sample_b, sample_c] = Some r"
    and d: "datasets r = [d]"
    and len: "length (labels r) = min (length [sample_a, sample_b, sample_c]) 8"
      "length (data d) = min (length [sample_a, sample_b, sample_c]) 8"
      "length (icons r) = min (length [sample_a, sample_b, sample_c]) 8"
    and nth: "\<forall>i < min (length [sample_a, sample_b, sample_c]) 8.
                labels r ! i = hour_label utc_hours ([sample_a, sample_b, sample_c] ! i)
              \<and> data d ! i = round (temp_max (main ([sample_a, sample_b, sample_c] ! i)))
              \<and> icons r ! i = getWeatherIcon (weather0_main ([sample_a, sample_b, sample_c] ! i))"
    by blast
  from nth have "labels r ! 2 = hour_label utc_hours sample_c" by simp
  then have l2: "labels r ! 2 = ''4:00''" by (simp add: hour_label_examples)
  from nth have "data d ! 1 = round (temp_max (main sample_b))" by simp
  also have "\<dots> = 13" by (simp add: sample_b_def round_def)
  finally have d1: "data d ! 1 = 13" .
  from nth have "icons r ! 0 = getWeatherIcon (weather0_main sample_a)" by simp
  also have "\<dots> = Asset ''rainy''"
    by (simp add: sample_a_def weather0_main_def getWeatherIcon_def get_property_def
        or_fallback_def String_of_def icon_map_def)
  finally have i0: "icons r ! 0 = Asset ''rainy''" .
  from h r d len l2 d1 i0 show ?thesis by simp
qed

section \<open>Day compaction: properties\<close>

subsection \<open>The dictionary after the loop\<close>

lemma map_of_tabulate:
  "map_of (map (\<lambda>k. (k, f k)) ks) k = (if k \<in> set ks then Some (f k) else None)"
  by (induction ks) auto

lemma update_absent: "k \<notin> fst ` set al \<Longrightarrow> AList.update k v al = al @ [(k, v)]"
  by (induction al) auto

lemma update_tabulate:
  "distinct ks \<Longrightarrow> k \<in> set ks \<Longrightarrow>
   AList.update k v (map (\<lambda>k. (k, f k)) ks) = map (\<lambda>k'. (k', if k' = k then v else f k')) ks"
proof (induction ks)
  case Nil
  then show ?case by simp
next
  case (Cons a ks)
  show ?case
  proof (cases "a = k")
    case True
    with Cons.prems have "k \<notin> set ks" by simp
    then have "map (\<lambda>k'. (k', f k')) ks = map (\<lambda>k'. (k', if k' = k then v else f k')) ks"
      by (intro map_cong) auto
    with True show ?thesis by simp
  next
    case False
    with Cons show ?thesis by simp
  qed
qed

lemma days_in_order_snoc:
  "days_in_order tds (xs @ [x]) =
     (if tds (dt x) \<in> set (days_in_order tds xs) then days_in_order tds xs
      else days_in_order tds xs @ [tds (dt x)])"
  by (simp add: days_in_order_def)

lemma set_days_in_order: "set (days_in_order tds l) = (\<lambda>item. tds (dt item)) ` set l"
  by (simp add: days_in_order_def)

lemma distinct_days_in_order: "distinct (days_in_order tds l)"
  by (simp add: days_in_order_def)

lemma summary_single:
  "summary [x] = \<lparr>b_dt = dt x, b_temp_min = temp_min (main x),
                   b_temp_max = temp_max (main x), b_weather = weather0 x\<rparr>"
  by (simp add: summary_def)

lemma summary_snoc:
  "ss \<noteq> [] \<Longrightarrow>
   summary (ss @ [x]) =
     (summary ss)\<lparr>b_temp_min := min (b_temp_min (summary ss)) (temp_min (main x)),
                  b_temp_max := max (b_temp_max (summary ss)) (temp_max (main x))\<rparr>"
  by (simp add: summary_def min.commute max.commute)

lemma group_by_day_snoc:
  "group_by_day tds (xs @ [x]) = add_item tds (group_by_day tds xs) x"
  by (simp add: group_by_day_def)

lemma group_by_day_eq:
  "group_by_day tds l =
     map (\<lambda>k. (k, summary (samples_of_day tds l k))) (days_in_order tds l)"
proof (induction l rule: rev_induct)
  case Nil
  show ?case by (simp add: group_by_day_def days_in_order_def)
next
  case (snoc x xs)
  let ?k = "tds (dt x)"
  let ?D = "days_in_order tds xs"
  have other: "samples_of_day tds (xs @ [x]) k' = samples_of_day tds xs k'" if "k' \<noteq> ?k" for k'
    using that by (auto simp: samples_of_day_def)
  show ?case
  proof (cases "?k \<in> set ?D")
    case True
    then have ne: "samples_of_day tds xs ?k \<noteq> []"
      by (auto simp: set_days_in_order samples_of_day_def filter_empty_conv)
    have same: "samples_of_day tds (xs @ [x]) ?k = samples_of_day tds xs ?k @ [x]"
      by (simp add: samples_of_day_def)
    have "group_by_day tds (xs @ [x]) =
            map (\<lambda>k'. (k', if k' = ?k then summary (samples_of_day tds xs ?k @ [x])
                            else summary (samples_of_day tds xs k'))) ?D"
      using True ne
      by (simp add: group_by_day_snoc snoc.IH add_item_def Let_def map_of_tabulate
          update_tabulate distinct_days_in_order summary_snoc)
    also have "\<dots> = map (\<lambda>k. (k, summary (samples_of_day tds (xs @ [x]) k))) ?D"
      by (rule map_cong) (auto simp: same other)
    finally show ?thesis using True by (simp add: days_in_order_snoc)
  next
    case False
    then have none: "samples_of_day tds xs ?k = []"
      unfolding set_days_in_order samples_of_day_def filter_empty_conv
      by (metis imageI)
    have new: "samples_of_day tds (xs @ [x]) ?k = [x]"
      using none by (simp add: samples_of_day_def)
    have absent: "?k \<notin> fst ` set (map (\<lambda>k. (k, summary (samples_of_day tds xs k))) ?D)"
      using False by (auto simp: image_iff)
    have "group_by_day tds (xs @ [x]) =
            map (\<lambda>k. (k, summary (samples_of_day tds xs k))) ?D @ [(?k, summary [x])]"
      using False
      by (simp add: group_by_day_snoc snoc.IH add_item_def Let_def map_of_tabulate
          update_absent [OF absent] summary_single)
    also have "map (\<lambda>k. (k, summary (samples_of_day tds xs k))) ?D =
               map (\<lambda>k. (k, summary (samples_of_day tds (xs @ [x]) k))) ?D"
    proof (rule map_cong)
      fix k' assume "k' \<in> set ?D"
      with False have "k' \<noteq> ?k" by blast
      then show "(k', summary (samples_of_day tds xs k')) =
                 (k', summary (samples_of_day tds (xs @ [x]) k'))"
        by (simp add: other)
    qed simp
    finally show ?thesis using False by (simp add: days_in_order_snoc new)
  qed
qed


subsection \<open>The compacted list\<close>

lemma compactForecast_eq:
  "compactForecast tds l = map to_item (take 5 (sort_key b_dt (day_summaries tds l)))"
  by (simp add: compactForecast_def group_by_day_eq day_summaries_def comp_def)

lemma samples_of_day_nonempty:
  "k \<in> set (days_in_order tds l) \<Longrightarrow> samples_of_day tds l k \<noteq> []"
  by (auto simp: set_days_in_order samples_of_day_def filter_empty_conv)

lemma hd_samples_of_day:
  assumes "samples_of_day tds l k \<noteq> []"
  shows "hd (samples_of_day tds l k) \<in> set l \<and> tds (dt (hd (samples_of_day tds l k))) = k"
proof -
  from assms have "hd (samples_of_day tds l k) \<in> set (samples_of_day tds l k)"
    by (rule hd_in_set)
  then show ?thesis by (simp add: samples_of_day_def)
qed

lemma day_of_summary:
  assumes "k \<in> set (days_in_order tds l)"
  shows "tds (b_dt (summary (samples_of_day tds l k))) = k"
proof -
  from assms have "samples_of_day tds l k \<noteq> []" by (rule samples_of_day_nonempty)
  from hd_samples_of_day [OF this] show ?thesis by (simp add: summary_def)
qed

lemma days_of_day_summaries:
  "map (\<lambda>b. tds (b_dt b)) (day_summaries tds l) = days_in_order tds l"
  by (simp add: day_summaries_def comp_def day_of_summary map_idI)

lemma distinct_map_outer:
  "distinct (map (\<lambda>x. g (f x)) xs) \<Longrightarrow> distinct (map f xs)"
  by (induction xs) auto

lemma distinct_dt_day_summaries: "distinct (map b_dt (day_summaries tds l))"
proof -
  have "distinct (map (\<lambda>b. tds (b_dt b)) (day_summaries tds l))"
    by (simp add: days_of_day_summaries distinct_days_in_order)
  then show ?thesis by (rule distinct_map_outer)
qed

lemma strict_sorted_buckets:
  "sorted_wrt (<) (map b_dt (sort_key b_dt (day_summaries tds l)))"
proof -
  let ?s = "sort_key b_dt (day_summaries tds l)"
  have "mset (map b_dt ?s) = mset (map b_dt (day_summaries tds l))"
    by simp
  then have "distinct (map b_dt ?s)"
    using distinct_dt_day_summaries mset_eq_imp_distinct_iff by blast
  moreover have "sorted (map b_dt ?s)" by (rule sorted_sort_key)
  ultimately show ?thesis by (simp add: strict_sorted_iff)
qed

lemma dt_of_compactForecast:
  "map fi_dt (compactForecast tds l) = map b_dt (take 5 (sort_key b_dt (day_summaries tds l)))"
  by (simp add: compactForecast_eq comp_def to_item_def)

text \<open>
  Claim C2. For every input list, the list returned by \<open>compactForecast\<close> has at most
  five entries and its \<open>dt\<close> fields are strictly ascending.
\<close>

theorem compactForecast_sorted:
  "length (compactForecast tds l) \<le> 5
   \<and> sorted_wrt (<) (map fi_dt (compactForecast tds l))"
proof
  show "length (compactForecast tds l) \<le> 5" by (simp add: compactForecast_def)
  have "sorted_wrt (<) (take 5 (map b_dt (sort_key b_dt (day_summaries tds l))))"
    using strict_sorted_buckets by (rule sorted_wrt_take)
  then show "sorted_wrt (<) (map fi_dt (compactForecast tds l))"
    by (simp add: dt_of_compactForecast take_map)
qed

lemma compactForecast_entry:
  assumes "e \<in> set (compactForecast tds l)"
  obtains k where "k \<in> set (days_in_order tds l)"
    and "e = to_item (summary (samples_of_day tds l k))"
    and "tds (fi_dt e) = k"
proof -
  from assms obtain b where b: "b \<in> set (take 5 (sort_key b_dt (day_summaries tds l)))"
    and e: "e = to_item b"
    by (auto simp: compactForecast_eq)
  from b have "b \<in> set (day_summaries tds l)"
    using set_take_subset by fastforce
  then obtain k where k: "k \<in> set (days_in_order tds l)"
    and bk: "b = summary (samples_of_day tds l k)"
    by (auto simp: day_summaries_def)
  have day: "tds (fi_dt e) = k"
    using day_of_summary [OF k] by (simp add: e bk to_item_def)
  show thesis
  proof (rule that)
    show "k \<in> set (days_in_order tds l)" by (rule k)
    show "e = to_item (summary (samples_of_day tds l k))" by (simp add: e bk)
    show "tds (fi_dt e) = k" by (rule day)
  qed
qed

lemma insort_key_map:
  "insort_key f (g x) (map g xs) = map g (insort_key (\<lambda>y. f (g y)) x xs)"
  by (induction xs) auto

lemma sort_key_map: "sort_key f (map g xs) = map g (sort_key (\<lambda>y. f (g y)) xs)"
  by (induction xs) (simp_all add: insort_key_map)

lemma to_item_summary: "to_item (summary (samples_of_day tds l k)) = day_entry tds l k"
  by (simp add: to_item_def summary_def day_entry_def Let_def weather0_def split: list.splits)

lemma b_dt_summary: "b_dt (summary (samples_of_day tds l k)) = first_dt tds l k"
  by (simp add: summary_def first_dt_def)

lemma compactForecast_spec:
  "compactForecast tds l = map (day_entry tds l) (earliest_days tds l)"
  by (simp add: compactForecast_eq day_summaries_def sort_key_map b_dt_summary take_map
      to_item_summary earliest_days_def first_dt_def [abs_def])

lemma day_of_first_dt:
  "k \<in> set (days_in_order tds l) \<Longrightarrow> tds (first_dt tds l k) = k"
  using day_of_summary [of k tds l] by (simp add: b_dt_summary)

lemma earliest_days_subset: "set (earliest_days tds l) \<subseteq> set (days_in_order tds l)"
proof -
  have "set (earliest_days tds l) \<subseteq> set (sort_key (first_dt tds l) (days_in_order tds l))"
    unfolding earliest_days_def by (rule set_take_subset)
  then show ?thesis by simp
qed

lemma distinct_earliest_days: "distinct (earliest_days tds l)"
  by (simp add: earliest_days_def distinct_days_in_order)

lemma length_earliest_days:
  "length (earliest_days tds l) = min 5 (card ((\<lambda>item. tds (dt item)) ` set l))"
proof -
  have "length (days_in_order tds l) = card (set (days_in_order tds l))"
    by (simp add: distinct_card distinct_days_in_order)
  then show ?thesis by (simp add: earliest_days_def set_days_in_order min.commute)
qed

lemma earliest_days_first:
  assumes k: "k \<in> set (earliest_days tds l)"
    and k': "k' \<in> set (days_in_order tds l)" "k' \<notin> set (earliest_days tds l)"
  shows "first_dt tds l k < first_dt tds l k'"
proof -
  let ?s = "sort_key (first_dt tds l) (days_in_order tds l)"
  have split: "?s = take 5 ?s @ drop 5 ?s" by simp
  have "sorted (map (first_dt tds l) ?s)" by (rule sorted_sort_key)
  then have "sorted (map (first_dt tds l) (take 5 ?s) @ map (first_dt tds l) (drop 5 ?s))"
    by (metis split map_append)
  then have le: "\<forall>x \<in> set (take 5 ?s). \<forall>y \<in> set (drop 5 ?s). first_dt tds l x \<le> first_dt tds l y"
    by (simp add: sorted_append)
  from k' have "k' \<in> set ?s" by simp
  then have "k' \<in> set (take 5 ?s) \<union> set (drop 5 ?s)"
    by (metis split set_append)
  with k'(2) have "k' \<in> set (drop 5 ?s)" by (simp add: earliest_days_def)
  with k le have "first_dt tds l k \<le> first_dt tds l k'" by (simp add: earliest_days_def)
  moreover have "first_dt tds l k \<noteq> first_dt tds l k'"
  proof
    assume eq: "first_dt tds l k = first_dt tds l k'"
    from k have "k \<in> set (days_in_order tds l)"
      using earliest_days_subset [of tds l] by (rule set_rev_mp)
    then have a: "tds (first_dt tds l k) = k" by (rule day_of_first_dt)
    have b: "tds (first_dt tds l k') = k'" using k'(1) by (rule day_of_first_dt)
    have "k = k'" by (metis a b eq)
    then have "k' \<in> set (earliest_days tds l)" using k by (rule subst)
    with k'(2) show False by (rule notE)
  qed
  ultimately show ?thesis by simp
qed

lemma first_dt_in_day:
  assumes "item \<in> set l"
  shows "tds (first_dt tds l (tds (dt item))) = tds (dt item)"
proof -
  from assms have "tds (dt item) \<in> set (days_in_order tds l)"
    by (simp add: set_days_in_order)
  then show ?thesis by (rule day_of_first_dt)
qed

lemma earliest_days_before:
  assumes iv: "days_are_intervals tds"
    and i: "item \<in> set l" "tds (dt item) \<notin> set (earliest_days tds l)"
    and i': "item' \<in> set l" "tds (dt item') \<in> set (earliest_days tds l)"
  shows "dt item' < dt item"
proof (rule ccontr)
  assume "\<not> dt item' < dt item"
  then have le: "dt item \<le> dt item'" by simp
  let ?k = "tds (dt item)" and ?k' = "tds (dt item')"
  let ?f = "first_dt tds l ?k'" and ?d = "first_dt tds l ?k"
  from i have kd: "?k \<in> set (days_in_order tds l)" by (simp add: set_days_in_order)
  have lt: "?f < ?d" using i'(2) kd i(2) by (rule earliest_days_first)
  have f: "tds ?f = ?k'" using i'(1) by (rule first_dt_in_day)
  have d: "tds ?d = ?k" using i(1) by (rule first_dt_in_day)
  have ne: "?k \<noteq> ?k'" using i(2) i'(2) by auto
  show False
  proof (cases "dt item \<le> ?f")
    case True
    with lt d iv have "tds ?f = tds (dt item)"
      unfolding days_are_intervals_def by (metis less_imp_le)
    with f ne show False by simp
  next
    case False
    then have "?f \<le> dt item" by simp
    with le f iv have "tds (dt item) = tds ?f"
      unfolding days_are_intervals_def by metis
    with f ne show False by simp
  qed
qed

text \<open>
  Claim C1. The output of \<open>compactForecast\<close> has exactly one entry for each of the
  earliest days of the input, at most five of them and all of them when the input has
  no more than five days. The entry of a day has the least \<open>temp_min\<close> and the greatest
  \<open>temp_max\<close> of all the samples of that day, and the condition and description of the
  day's first sample in input order. The days are ranked by the timestamp of their first
  sample; as calendar days are intervals of time, every sample of a day that is kept is
  then earlier than every sample of a day that is left out.
\<close>

theorem compactForecast_per_day:
  "compactForecast tds l = map (day_entry tds l) (earliest_days tds l)
   \<and> distinct (earliest_days tds l)
   \<and> set (earliest_days tds l) \<subseteq> (\<lambda>item. tds (dt item)) ` set l
   \<and> length (earliest_days tds l) = min 5 (card ((\<lambda>item. tds (dt item)) ` set l))
   \<and> (\<forall>k \<in> set (earliest_days tds l). \<forall>item \<in> set l.
         tds (dt item) \<notin> set (earliest_days tds l) \<longrightarrow>
         first_dt tds l k < first_dt tds l (tds (dt item)))
   \<and> (days_are_intervals tds \<longrightarrow>
        (\<forall>item' \<in> set l. \<forall>item \<in> set l.
           tds (dt item') \<in> set (earliest_days tds l) \<and>
           tds (dt item) \<notin> set (earliest_days tds l) \<longrightarrow> dt item' < dt item))"
proof (intro conjI ballI impI)
  show "compactForecast tds l = map (day_entry tds l) (earliest_days tds l)"
    by (rule compactForecast_spec)
  show "distinct (earliest_days tds l)" by (rule distinct_earliest_days)
  show "set (earliest_days tds l) \<subseteq> (\<lambda>item. tds (dt item)) ` set l"
    using earliest_days_subset [of tds l] by (simp add: set_days_in_order)
  show "length (earliest_days tds l) = min 5 (card ((\<lambda>item. tds (dt item)) ` set l))"
    by (rule length_earliest_days)
next
  fix k item
  assume "k \<in> set (earliest_days tds l)" "item \<in> set l"
    "tds (dt item) \<notin> set (earliest_days tds l)"
  then show "first_dt tds l k < first_dt tds l (tds (dt item))"
    by (intro earliest_days_first) (simp_all add: set_days_in_order)
next
  fix item' item
  assume "days_are_intervals tds" "item' \<in> set l" "item \<in> set l"
    "tds (dt item') \<in> set (earliest_days tds l) \<and> tds (dt item) \<notin> set (earliest_days tds l)"
  then show "dt item' < dt item"
    using earliest_days_before [of tds item l item'] by blast
qed

lemma summary_min_le_max:
  assumes ne: "ss \<noteq> []"
    and ok: "\<forall>item \<in> set ss. temp_min (main item) \<le> temp_max (main item)"
  shows "b_temp_min (summary ss) \<le> b_temp_max (summary ss)"
proof -
  from ne have h: "hd ss \<in> set ss" by (rule hd_in_set)
  have "Min (set (map (\<lambda>item. temp_min (main item)) ss)) \<le> temp_min (main (hd ss))"
    using h by (intro Min_le) auto
  also have "\<dots> \<le> temp_max (main (hd ss))" using ok h by blast
  also have "\<dots> \<le> Max (set (map (\<lambda>item. temp_max (main item)) ss))"
    using h by (intro Max_ge) auto
  finally show ?thesis by (simp add: summary_def)
qed

text \<open>
  Claim C7. When every sample of the input has \<open>temp_min \<le> temp_max\<close>, so has every
  entry of the output of \<open>compactForecast\<close>.
\<close>

theorem compactForecast_min_le_max:
  assumes "\<forall>item \<in> set l. temp_min (main item) \<le> temp_max (main item)"
  shows "\<forall>e \<in> set (compactForecast tds l). fi_temp_min e \<le> fi_temp_max e"
proof
  fix e assume "e \<in> set (compactForecast tds l)"
  then obtain k where k: "k \<in> set (days_in_order tds l)"
    and e: "e = to_item (summary (samples_of_day tds l k))"
    by (rule compactForecast_entry)
  from k have ne: "samples_of_day tds l k \<noteq> []" by (rule samples_of_day_nonempty)
  have "\<forall>item \<in> set (samples_of_day tds l k). temp_min (main item) \<le> temp_max (main item)"
    using assms by (simp add: samples_of_day_def)
  with ne have "b_temp_min (summary (samples_of_day tds l k))
                \<le> b_temp_max (summary (samples_of_day tds l k))"
    by (rule summary_min_le_max)
  then show "fi_temp_min e \<le> fi_temp_max e" by (simp add: e to_item_def)
qed


subsection \<open>Examples\<close>

lemma utc_days_are_intervals: "days_are_intervals utc_day"
  unfolding days_are_intervals_def utc_day_def
proof (intro allI impI)
  fix a b c :: int
  assume h: "a \<le> b \<and> b \<le> c \<and> a div 86400 = c div 86400"
  then have "a \<le> b" and "b \<le> c" by simp_all
  then have "a div 86400 \<le> b div 86400" and "b div 86400 \<le> c div 86400"
    by (simp_all only: zdiv_mono1 [of _ _ 86400, simplified])
  moreover from h have "a div 86400 = c div 86400" by simp
  ultimately show "b div 86400 = a div 86400" by linarith
qed

theorem compactForecast_per_day_witness:
  "days_are_intervals utc_day
   \<and> earliest_days utc_day six_days = [0, 1, 2, 3, 4]
   \<and> compactForecast utc_day six_days ! 1 =
       \<lparr>fi_dt = 90000, fi_main = ''Rain'', fi_desc = ''lluvia ligera'',
        fi_temp_min = 9.5, fi_temp_max = 17\<rparr>
   \<and> sample_c \<in> set six_days \<and> sample_d \<in> set six_days
   \<and> utc_day (dt sample_d) \<notin> set (earliest_days utc_day six_days)
   \<and> dt sample_c < dt sample_d"
proof -
  have days: "earliest_days utc_day six_days = [0, 1, 2, 3, 4]"
    by (simp add: earliest_days_def days_in_order_def first_dt_def samples_of_day_def
        six_days_def sample_defs utc_day_def)
  have entry: "day_entry utc_day six_days 1 =
       \<lparr>fi_dt = 90000, fi_main = ''Rain'', fi_desc = ''lluvia ligera'',
        fi_temp_min = 9.5, fi_temp_max = 17\<rparr>"
    by (simp add: day_entry_def samples_of_day_def six_days_def sample_defs utc_day_def)
  have mem: "sample_c \<in> set six_days" "sample_d \<in> set six_days"
    by (simp_all add: six_days_def)
  have day_c: "utc_day (dt sample_c) \<in> set (earliest_days utc_day six_days)"
    by (simp add: days sample_defs utc_day_def)
  have day_d: "utc_day (dt sample_d) \<notin> set (earliest_days utc_day six_days)"
    by (simp add: days sample_defs utc_day_def)
  note inst = compactForecast_per_day [of utc_day six_days]
  from inst have "compactForecast utc_day six_days
                 = map (day_entry utc_day six_days) (earliest_days utc_day six_days)"
    by (rule conjunct1)
  then have second: "compactForecast utc_day six_days ! 1 = day_entry utc_day six_days 1"
    by (simp add: days)
  from inst utc_days_are_intervals mem day_c day_d have "dt sample_c < dt sample_d"
    by blast
  with utc_days_are_intervals days second entry mem day_d show ?thesis by simp
qed

theorem compactForecast_min_le_max_witness:
  "list_all (\<lambda>item. temp_min (main item) \<le> temp_max (main item)) [sample_a, sample_b, sample_c]
   \<and> length (compactForecast utc_day [sample_a, sample_b, sample_c]) = 2
   \<and> list_all (\<lambda>e. fi_temp_min e \<le> fi_temp_max e)
        (compactForecast utc_day [sample_a, sample_b, sample_c])"
proof -
  have h: "\<forall>item \<in> set [sample_a, sample_b, sample_c]. temp_min (main item) \<le> temp_max (main item)"
    by (simp add: sample_defs)
  have n: "length (compactForecast utc_day [sample_a, sample_b, sample_c]) = 2"
    by (simp add: compactForecast_def group_by_day_def add_item_def sample_defs utc_day_def)
  from h n compactForecast_min_le_max [OF h, of utc_day] show ?thesis
    unfolding list_all_iff by blast
qed

theorem compactForecast_sorted_witness:
  "length (compactForecast utc_day six_days) = 5
   \<and> sorted_wrt (<) (map fi_dt (compactForecast utc_day six_days))"
proof -
  have "length (compactForecast utc_day six_days) = 5"
    by (simp add: compactForecast_def group_by_day_def add_item_def six_days_def sample_defs
        utc_day_def)
  with compactForecast_sorted [of utc_day six_days] show ?thesis by simp
qed

section \<open>Condition-to-asset mapping: properties\<close>

lemma getWeatherIcon_unmapped:
  assumes "map_of icon_map (String_of w) = None"
    and "String_of w \<notin> set object_prototype_members"
  shows "getWeatherIcon w = Asset ''partly-sunny''"
  using assms by (simp add: getWeatherIcon_def get_property_def or_fallback_def)

lemma getWeatherImage_unmapped:
  assumes "map_of image_map (String_of w) = None"
    and "String_of w \<notin> set object_prototype_members"
  shows "getWeatherImage w = Asset default_image"
  using assms by (simp add: getWeatherImage_def get_property_def or_fallback_def)

lemma lookup_undefined:
  "getWeatherIcon None = Asset ''partly-sunny'' \<and> getWeatherImage None = Asset default_image"
  by (simp add: getWeatherIcon_def getWeatherImage_def get_property_def or_fallback_def
      String_of_def icon_map_def image_map_def object_prototype_members_def)

lemma getWeatherIcon_mapped:
  "map_of icon_map (String_of w) = Some v \<Longrightarrow> getWeatherIcon w = Asset v"
  by (simp add: getWeatherIcon_def get_property_def or_fallback_def)

text \<open>
  Claim C5 says that a keyword absent from the static map gets the fallback. The keyword
  \<open>'constructor'\<close> is absent from both maps, and both functions return for it the member
  that the map inherits from \<open>Object.prototype\<close> instead of their fallback.
\<close>

theorem lookup_constructor:
  "map_of icon_map ''constructor'' = None
   \<and> map_of image_map ''constructor'' = None
   \<and> getWeatherIcon (Some ''constructor'') = Prototype_Member ''constructor''
   \<and> getWeatherImage (Some ''constructor'') = Prototype_Member ''constructor''
   \<and> getWeatherIcon (Some ''constructor'') \<noteq> Asset ''partly-sunny''
   \<and> getWeatherImage (Some ''constructor'') \<noteq> Asset default_image"
  by (simp add: getWeatherIcon_def getWeatherImage_def get_property_def or_fallback_def
      String_of_def icon_map_def image_map_def object_prototype_members_def)

section \<open>Failure paths\<close>

lemma fetchAll_error:
  "fetchAll_failure e c \<Longrightarrow> error (fst (fetchAll e c st)) = Some (fetchAll_message e)"
  by (auto simp: fetchAll_def fetchAll_failure_def fetchAll_message_def is_ok_def Let_def
      split: fetched.splits)

lemma fetchAll_loading: "loading (fst (fetchAll e c st)) = loading st"
  by (auto simp: fetchAll_def Let_def split: fetched.splits)

lemma base_urls_differ: "CURRENT_URL \<noteq> FORECAST_URL"
  by (simp add: CURRENT_URL_def FORECAST_URL_def)

lemma fetchAll_asked:
  "snd (fetchAll e c st) =
     (if canFetch e
      then [Fetch (current_url_by_coords e (lat c) (lon c)),
            Fetch (forecast_url_by_coords e (lat c) (lon c))]
      else [])"
  by (simp add: fetchAll_def Let_def split: fetched.splits)

lemma urls_differ:
  "current_url_by_coords e la lo \<noteq> forecast_url_by_coords e la' lo'"
  "current_url_by_city e q \<noteq> forecast_url_by_coords e la' lo'"
  using base_urls_differ
  by (simp_all add: current_url_by_coords_def current_url_by_city_def
      forecast_url_by_coords_def)

lemma fetchAll_asks_once: "distinct (snd (fetchAll e c st))"
  by (simp add: fetchAll_asked urls_differ)

lemma initByGeolocation_error:
  assumes "geolocation_failure e"
  shows "error (fst (initByGeolocation e st)) = Some (geolocation_message e)
         \<and> render (fst (initByGeolocation e st))
             = Error_View (geolocation_message e) InitByGeolocation"
proof (cases "requestForegroundPermissionsAsync e")
  case Throws
  then show ?thesis
    by (simp add: initByGeolocation_def geolocation_message_def render_def)
next
  case (Returns status)
  note perm = this
  show ?thesis
  proof (cases "status = ''granted''")
    case False
    with perm show ?thesis
      by (simp add: initByGeolocation_def geolocation_message_def render_def)
  next
    case True
    note granted = this
    show ?thesis
    proof (cases "getCurrentPositionAsync e")
      case Throws
      with perm granted show ?thesis
        by (simp add: initByGeolocation_def geolocation_message_def render_def)
    next
      case (Returns c)
      with assms perm granted have "fetchAll_failure e c"
        by (simp add: geolocation_failure_def)
      then have
        "error (fst (fetchAll e c (st\<lparr>error := None, loading := True, coords := Some c\<rparr>)))
         = Some (fetchAll_message e)"
        by (rule fetchAll_error)
      with Returns perm granted show ?thesis
        by (simp add: initByGeolocation_def geolocation_message_def render_def Let_def
            split_beta)
    qed
  qed
qed

lemma initByGeolocation_asked:
  "snd (initByGeolocation e st) =
     (case requestForegroundPermissionsAsync e of
        Throws \<Rightarrow> [RequestForegroundPermissions]
      | Returns status \<Rightarrow>
          if status \<noteq> ''granted'' then [RequestForegroundPermissions]
          else (case getCurrentPositionAsync e of
                  Throws \<Rightarrow> [RequestForegroundPermissions, GetCurrentPosition]
                | Returns c \<Rightarrow>
                    [RequestForegroundPermissions, GetCurrentPosition]
                    @ (if canFetch e
                       then [Fetch (current_url_by_coords e (lat c) (lon c)),
                             Fetch (forecast_url_by_coords e (lat c) (lon c))]
                       else [])))"
  by (simp add: initByGeolocation_def Let_def split_beta fetchAll_asked split: outcome.splits)

lemma initByGeolocation_asks_once: "distinct (snd (initByGeolocation e st))"
  by (simp add: initByGeolocation_asked urls_differ split: outcome.splits)

lemma searchByCity_error:
  assumes "trim (query st) \<noteq> []" and "search_failure e (query st)"
  shows "error (fst (searchByCity e st)) = Some No_Ciudad
         \<and> render (fst (searchByCity e st)) = Error_View No_Ciudad InitByGeolocation"
  using assms
  by (auto simp: searchByCity_def search_failure_def is_ok_def render_def Let_def
      split: outcome.splits fetched.splits)

lemma searchByCity_asks_once: "distinct (snd (searchByCity e st))"
  by (simp add: searchByCity_def Let_def urls_differ split: outcome.splits fetched.splits)

lemma searchByCity_unencodable:
  assumes "trim (query st) \<noteq> []" and "\<not> well_formed (query st)"
  shows "snd (searchByCity e st) = [KeyboardDismiss]"
  using assms by (simp add: searchByCity_def encodeURIComponent_def)

lemma refreshData_error:
  assumes "refresh_failure e st"
  shows "error (fst (refreshData e st)) = Some (refresh_message e st)
         \<and> render (fst (refreshData e st)) = Error_View (refresh_message e st) InitByGeolocation"
proof (cases "coords st")
  case (Some c)
  with assms have "fetchAll_failure e c" by (simp add: refresh_failure_def)
  then have "error (fst (fetchAll e c (st\<lparr>loading := True, error := None\<rparr>)))
             = Some (fetchAll_message e)"
    by (rule fetchAll_error)
  with Some show ?thesis
    by (simp add: refreshData_def refresh_message_def render_def Let_def split_beta)
next
  case None
  with assms have q: "trim (query st) \<noteq> []" and f: "search_failure e (query st)"
    by (simp_all add: refresh_failure_def)
  from q have ne: "query st \<noteq> []" by (auto simp: trim_def)
  have "error (fst (searchByCity e (st\<lparr>loading := True, error := None\<rparr>))) = Some No_Ciudad"
    using searchByCity_error [of "st\<lparr>loading := True, error := None\<rparr>" e] q f by simp
  with None ne show ?thesis
    by (simp add: refreshData_def refresh_message_def render_def Let_def split_beta)
qed

lemma refreshData_asks_once: "distinct (snd (refreshData e st))"
  using fetchAll_asks_once [of e] searchByCity_asks_once [of e]
  by (simp add: refreshData_def Let_def split_beta split: option.splits)

lemma fetchAll_success:
  assumes "\<not> fetchAll_failure e c"
  shows "error (fst (fetchAll e c st)) = error st \<and> current (fst (fetchAll e c st)) \<noteq> None"
  using assms
  by (auto simp: fetchAll_def fetchAll_failure_def is_ok_def Let_def split: fetched.splits)

lemma initByGeolocation_success:
  assumes "\<not> geolocation_failure e"
  shows "error (fst (initByGeolocation e st)) = None
         \<and> render (fst (initByGeolocation e st)) = Main_View"
proof -
  from assms obtain c where p: "requestForegroundPermissionsAsync e = Returns ''granted''"
    and g: "getCurrentPositionAsync e = Returns c" and f: "\<not> fetchAll_failure e c"
    by (auto simp: geolocation_failure_def split: outcome.splits)
  have "error (fst (fetchAll e c (st\<lparr>error := None, loading := True, coords := Some c\<rparr>))) = None"
    using fetchAll_success [OF f] by simp
  with p g show ?thesis
    by (simp add: initByGeolocation_def render_def Let_def split_beta)
qed

lemma searchByCity_success:
  assumes "trim (query st) \<noteq> []" and "\<not> search_failure e (query st)"
  shows "error (fst (searchByCity e st)) = None
         \<and> render (fst (searchByCity e st)) = Main_View"
  using assms
  by (auto simp: searchByCity_def search_failure_def is_ok_def render_def Let_def
      split: outcome.splits fetched.splits)

text \<open>
  Claim C8, as the code has it. Every failure path ends with exactly one message in
  \<open>error\<close> and with the error view on screen, which shows that message and one button,
  the retry, which runs \<open>initByGeolocation\<close>: in \<open>initByGeolocation\<close>, in
  \<open>searchByCity\<close>, in \<open>refreshData\<close>, and in \<open>fetchAll\<close> once its caller has cleared
  \<open>loading\<close>, as both callers do. The message is not one for all failures: it is the
  message of the handler and of the stage that failed, \<open>Permiso_Denegado\<close> for a
  permission that is not granted, \<open>No_Ubicacion\<close> for a location that is not available,
  \<open>Falta_API_Key\<close> for a missing credential in \<open>fetchAll\<close>, \<open>Error_Datos\<close> for every
  failure of a fetch in \<open>fetchAll\<close>, \<open>No_Ciudad\<close> for every failure in
  \<open>searchByCity\<close>. No handler asks the platform for anything twice: nothing is retried.
\<close>

theorem failures_end_in_one_message:
  "(geolocation_failure e \<longrightarrow>
      error (fst (initByGeolocation e st)) = Some (geolocation_message e)
      \<and> render (fst (initByGeolocation e st))
          = Error_View (geolocation_message e) InitByGeolocation)
   \<and> (trim (query st) \<noteq> [] \<and> search_failure e (query st) \<longrightarrow>
      error (fst (searchByCity e st)) = Some No_Ciudad
      \<and> render (fst (searchByCity e st)) = Error_View No_Ciudad InitByGeolocation)
   \<and> (refresh_failure e st \<longrightarrow>
      error (fst (refreshData e st)) = Some (refresh_message e st)
      \<and> render (fst (refreshData e st)) = Error_View (refresh_message e st) InitByGeolocation)
   \<and> (fetchAll_failure e c \<longrightarrow>
      error (fst (fetchAll e c st)) = Some (fetchAll_message e)
      \<and> render ((fst (fetchAll e c st))\<lparr>loading := False\<rparr>)
          = Error_View (fetchAll_message e) InitByGeolocation)
   \<and> distinct (snd (initByGeolocation e st))
   \<and> distinct (snd (searchByCity e st))
   \<and> distinct (snd (refreshData e st))
   \<and> distinct (snd (fetchAll e c st))"
proof (intro conjI impI)
  assume "geolocation_failure e"
  then show "error (fst (initByGeolocation e st)) = Some (geolocation_message e)"
    and "render (fst (initByGeolocation e st))
         = Error_View (geolocation_message e) InitByGeolocation"
    using initByGeolocation_error [of e st] by simp_all
next
  assume "trim (query st) \<noteq> [] \<and> search_failure e (query st)"
  then show "error (fst (searchByCity e st)) = Some No_Ciudad"
    and "render (fst (searchByCity e st)) = Error_View No_Ciudad InitByGeolocation"
    using searchByCity_error [of st e] by simp_all
next
  assume "refresh_failure e st"
  then show "error (fst (refreshData e st)) = Some (refresh_message e st)"
    and "render (fst (refreshData e st)) = Error_View (refresh_message e st) InitByGeolocation"
    using refreshData_error [of e st] by simp_all
next
  assume f: "fetchAll_failure e c"
  then show m: "error (fst (fetchAll e c st)) = Some (fetchAll_message e)"
    by (rule fetchAll_error)
  then show "render ((fst (fetchAll e c st))\<lparr>loading := False\<rparr>)
             = Error_View (fetchAll_message e) InitByGeolocation"
    by (simp add: render_def)
next
  show "distinct (snd (initByGeolocation e st))" by (rule initByGeolocation_asks_once)
  show "distinct (snd (searchByCity e st))" by (rule searchByCity_asks_once)
  show "distinct (snd (refreshData e st))" by (rule refreshData_asks_once)
  show "distinct (snd (fetchAll e c st))" by (rule fetchAll_asks_once)
qed

subsection \<open>Examples\<close>

lemmas example_env_defs =
  env_forecast_fails_def env_denied_def env_online_def example_env_def

theorem failures_end_in_one_message_witness:
  "geolocation_failure env_forecast_fails
   \<and> render (fst (initByGeolocation env_forecast_fails (initial_state\<lparr>query := lima_query\<rparr>)))
       = Error_View Error_Datos InitByGeolocation
   \<and> trim (query (initial_state\<lparr>query := lima_query\<rparr>)) \<noteq> []
   \<and> search_failure env_forecast_fails (query (initial_state\<lparr>query := lima_query\<rparr>))
   \<and> render (fst (searchByCity env_forecast_fails (initial_state\<lparr>query := lima_query\<rparr>)))
       = Error_View No_Ciudad InitByGeolocation
   \<and> refresh_failure env_forecast_fails (initial_state\<lparr>query := lima_query\<rparr>)
   \<and> render (fst (refreshData env_forecast_fails (initial_state\<lparr>query := lima_query\<rparr>)))
       = Error_View No_Ciudad InitByGeolocation
   \<and> fetchAll_failure env_forecast_fails device_position
   \<and> error (fst (fetchAll env_forecast_fails device_position
                   (initial_state\<lparr>query := lima_query\<rparr>))) = Some Error_Datos
   \<and> length (snd (initByGeolocation env_forecast_fails (initial_state\<lparr>query := lima_query\<rparr>)))
       = 4
   \<and> distinct (snd (initByGeolocation env_forecast_fails (initial_state\<lparr>query := lima_query\<rparr>)))"
proof -
  let ?e = env_forecast_fails
  let ?st = "initial_state\<lparr>query := lima_query\<rparr>"
  have f: "fetchAll_failure ?e device_position"
    by (simp add: fetchAll_failure_def example_env_defs is_ok_def)
  have g: "geolocation_failure ?e"
    using f by (simp add: geolocation_failure_def example_env_defs)
  have q: "trim (query ?st) \<noteq> []"
    by (simp add: trim_def lima_query_def is_white_space_def)
  have s: "search_failure ?e (query ?st)"
    by (simp add: search_failure_def encodeURIComponent_def lima_query_def
        is_low_surrogate_def is_high_surrogate_def example_env_defs is_ok_def)
  have r: "refresh_failure ?e ?st"
    using q s by (simp add: refresh_failure_def initial_state_def)
  have mf: "fetchAll_message ?e = Error_Datos"
    by (simp add: fetchAll_message_def canFetch_def example_env_defs)
  have mg: "geolocation_message ?e = Error_Datos"
    using mf by (simp add: geolocation_message_def example_env_defs)
  have mr: "refresh_message ?e ?st = No_Ciudad"
    by (simp add: refresh_message_def initial_state_def)
  have n: "length (snd (initByGeolocation ?e ?st)) = 4"
    by (simp add: initByGeolocation_asked canFetch_def example_env_defs)
  from failures_end_in_one_message [of ?e ?st device_position] g q s r f mf mg mr n
  show ?thesis by simp
qed

text \<open>
  Claim C8 as the specification words it, one message for every failure path, does not
  hold: from the same state, a permission that is denied and a forecast endpoint that
  answers with a response that is not \<open>ok\<close> are two failure paths of
  \<open>initByGeolocation\<close>, and they end with two different messages.
\<close>

theorem failures_differ_in_message:
  "geolocation_failure env_denied
   \<and> geolocation_failure env_forecast_fails
   \<and> error (fst (initByGeolocation env_denied initial_state)) = Some Permiso_Denegado
   \<and> error (fst (initByGeolocation env_forecast_fails initial_state)) = Some Error_Datos
   \<and> error (fst (initByGeolocation env_denied initial_state))
       \<noteq> error (fst (initByGeolocation env_forecast_fails initial_state))"
  by (simp add: geolocation_failure_def fetchAll_failure_def is_ok_def initByGeolocation_def
      fetchAll_def canFetch_def example_env_defs Let_def)

text \<open>
  A query that \<open>encodeURIComponent\<close> rejects ends in the same message before anything is
  fetched, also where both endpoints would answer.
\<close>

lemma searchByCity_lone_surrogate:
  "searchByCity env_online (initial_state\<lparr>query := lone_surrogate_query\<rparr>)
     = (initial_state\<lparr>query := lone_surrogate_query, error := Some No_Ciudad, loading := False\<rparr>,
        [KeyboardDismiss])"
  by (simp add: searchByCity_def encodeURIComponent_def lone_surrogate_query_def trim_def
      is_white_space_def is_low_surrogate_def is_high_surrogate_def initial_state_def)

section \<open>Units are for display only\<close>

lemma requests_metric:
  "map_of (url_params (current_url_by_coords e la lo)) ''units'' = Some (Text ''metric'')"
  "map_of (url_params (forecast_url_by_coords e la lo)) ''units'' = Some (Text ''metric'')"
  "map_of (url_params (current_url_by_city e q)) ''units'' = Some (Text ''metric'')"
  by (simp_all add: current_url_by_coords_def forecast_url_by_coords_def current_url_by_city_def)

lemma fetchAll_metric: "\<forall>a \<in> set (snd (fetchAll e c st)). asks_metric a"
  by (auto simp: fetchAll_asked asks_metric_def requests_metric)

lemma initByGeolocation_metric: "\<forall>a \<in> set (snd (initByGeolocation e st)). asks_metric a"
  by (auto simp: initByGeolocation_asked asks_metric_def requests_metric split: outcome.splits)

lemma searchByCity_metric: "\<forall>a \<in> set (snd (searchByCity e st)). asks_metric a"
  by (auto simp: searchByCity_def Let_def asks_metric_def requests_metric
      split: outcome.splits fetched.splits)

lemma refreshData_metric: "\<forall>a \<in> set (snd (refreshData e st)). asks_metric a"
  using fetchAll_metric [of e] searchByCity_metric [of e]
  by (simp add: refreshData_def Let_def split_beta split: option.splits)

lemma toggleUnits_stored: "stored (toggleUnits st) = stored st"
  by (simp add: toggleUnits_def stored_def)

lemma toggleUnits_frame: "toggleUnits st = st\<lparr>units := units (toggleUnits st)\<rparr>"
  by (simp add: toggleUnits_def)

lemma fetchAll_units:
  "fetchAll e c (st\<lparr>units := u\<rparr>) = (fst (fetchAll e c st)\<lparr>units := u\<rparr>, snd (fetchAll e c st))"
  by (simp add: fetchAll_def Let_def split: fetched.splits)

lemma initByGeolocation_units:
  "initByGeolocation e (st\<lparr>units := u\<rparr>)
     = (fst (initByGeolocation e st)\<lparr>units := u\<rparr>, snd (initByGeolocation e st))"
  by (simp add: initByGeolocation_def fetchAll_def Let_def split_beta
      split: outcome.splits fetched.splits)

lemma searchByCity_units:
  "searchByCity e (st\<lparr>units := u\<rparr>)
     = (fst (searchByCity e st)\<lparr>units := u\<rparr>, snd (searchByCity e st))"
  by (simp add: searchByCity_def Let_def split: outcome.splits fetched.splits)

lemma stored_units: "stored (st\<lparr>units := u\<rparr>) = stored st"
  by (simp add: stored_def)

text \<open>
  Claim C9. Unit conversion is display only. Every fetch of \<open>fetchAll\<close>,
  \<open>initByGeolocation\<close>, \<open>searchByCity\<close> and \<open>refreshData\<close> asks for metric units,
  whatever \<open>units\<close> is; \<open>toggleUnits\<close> changes \<open>units\<close> and nothing else, so the stored
  current conditions, forecast and hourly series stay as they are; and what a handler
  stores does not depend on \<open>units\<close>. The conversions \<open>displayTemp\<close> and
  \<open>displaySpeed\<close> are functions of the unit system and a number, without access to the
  state.
\<close>

theorem units_display_only:
  "(\<forall>a \<in> set (snd (fetchAll e c st)) \<union> set (snd (initByGeolocation e st))
          \<union> set (snd (searchByCity e st)) \<union> set (snd (refreshData e st)). asks_metric a)
   \<and> stored (toggleUnits st) = stored st
   \<and> toggleUnits st = st\<lparr>units := units (toggleUnits st)\<rparr>
   \<and> stored (fst (fetchAll e c (toggleUnits st))) = stored (fst (fetchAll e c st))
   \<and> stored (fst (initByGeolocation e (toggleUnits st))) = stored (fst (initByGeolocation e st))
   \<and> stored (fst (searchByCity e (toggleUnits st))) = stored (fst (searchByCity e st))"
proof (intro conjI)
  show "\<forall>a \<in> set (snd (fetchAll e c st)) \<union> set (snd (initByGeolocation e st))
          \<union> set (snd (searchByCity e st)) \<union> set (snd (refreshData e st)). asks_metric a"
    using fetchAll_metric [of e c st] initByGeolocation_metric [of e st]
      searchByCity_metric [of e st] refreshData_metric [of e st]
    by blast
  show "stored (toggleUnits st) = stored st" by (rule toggleUnits_stored)
  show "toggleUnits st = st\<lparr>units := units (toggleUnits st)\<rparr>" by (rule toggleUnits_frame)
  show "stored (fst (fetchAll e c (toggleUnits st))) = stored (fst (fetchAll e c st))"
    by (simp add: toggleUnits_def fetchAll_units stored_units)
  show "stored (fst (initByGeolocation e (toggleUnits st))) = stored (fst (initByGeolocation e st))"
    by (simp add: toggleUnits_def initByGeolocation_units stored_units)
  show "stored (fst (searchByCity e (toggleUnits st))) = stored (fst (searchByCity e st))"
    by (simp add: toggleUnits_def searchByCity_units stored_units)
qed

theorem units_display_only_witness:
  "units (toggleUnits initial_state) = ''imperial''
   \<and> Fetch (forecast_url_by_coords env_online (lat device_position) (lon device_position))
       \<in> set (snd (initByGeolocation env_online (toggleUnits initial_state)))
   \<and> asks_metric (Fetch (forecast_url_by_coords env_online (lat device_position) (lon device_position)))
   \<and> stored (toggleUnits initial_state) = (None, [], None)
   \<and> current (fst (initByGeolocation env_online (toggleUnits initial_state))) = Some lima_weather
   \<and> stored (fst (initByGeolocation env_online (toggleUnits initial_state)))
       = stored (fst (initByGeolocation env_online initial_state))"
proof -
  let ?st = "toggleUnits initial_state"
  let ?u = "Fetch (forecast_url_by_coords env_online (lat device_position) (lon device_position))"
  have u: "units ?st = ''imperial''" by (simp add: toggleUnits_def initial_state_def)
  have m: "?u \<in> set (snd (initByGeolocation env_online ?st))"
    by (simp add: initByGeolocation_asked env_online_def example_env_def canFetch_def)
  have s0: "stored initial_state = (None, [], None)"
    by (simp add: stored_def initial_state_def)
  have c: "current (fst (initByGeolocation env_online ?st)) = Some lima_weather"
    by (simp add: initByGeolocation_def fetchAll_def env_online_def example_env_def
        canFetch_def Let_def)
  note inst = units_display_only [of env_online device_position ?st]
  from inst m have "asks_metric ?u" by blast
  moreover from units_display_only [of env_online device_position initial_state]
  have "stored ?st = stored initial_state"
    and "stored (fst (initByGeolocation env_online ?st))
         = stored (fst (initByGeolocation env_online initial_state))"
    by blast+
  ultimately show ?thesis using u m s0 c by simp
qed

section \<open>The blank query\<close>

lemma trim_empty_iff: "trim s = [] \<longleftrightarrow> (\<forall>c \<in> set s. is_white_space c)"
proof
  assume "\<forall>c \<in> set s. is_white_space c"
  then show "trim s = []" by (auto simp: trim_def dest: set_dropWhileD)
next
  assume "trim s = []"
  then have all: "\<forall>c \<in> set (dropWhile is_white_space s). is_white_space c"
    by (simp add: trim_def)
  have "dropWhile is_white_space s = []"
  proof (rule ccontr)
    assume ne: "dropWhile is_white_space s \<noteq> []"
    then have "\<not> is_white_space (hd (dropWhile is_white_space s))" by (rule hd_dropWhile)
    moreover from ne have "hd (dropWhile is_white_space s) \<in> set (dropWhile is_white_space s)"
      by (rule hd_in_set)
    ultimately show False using all by blast
  qed
  then show "\<forall>c \<in> set s. is_white_space c" by simp
qed

text \<open>
  Claim C10. For a query that is empty or consists of white space only, \<open>searchByCity\<close>
  returns at once: it asks nothing of the platform, so fetches nothing, and leaves every
  state variable as it is.
\<close>

theorem searchByCity_blank:
  assumes "\<forall>c \<in> set (query st). is_white_space c"
  shows "searchByCity e st = (st, [])"
  using assms by (simp add: searchByCity_def trim_empty_iff)

theorem searchByCity_blank_witness:
  "list_all is_white_space (query (initial_state\<lparr>query := blank_query\<rparr>))
   \<and> searchByCity env_online (initial_state\<lparr>query := blank_query\<rparr>)
       = (initial_state\<lparr>query := blank_query\<rparr>, [])
   \<and> searchByCity env_online initial_state = (initial_state, [])"
proof -
  have b: "\<forall>c \<in> set (query (initial_state\<lparr>query := blank_query\<rparr>)). is_white_space c"
    by (simp add: blank_query_def is_white_space_def)
  have n: "\<forall>c \<in> set (query initial_state). is_white_space c"
    by (simp add: initial_state_def)
  from b searchByCity_blank [OF b, of env_online] searchByCity_blank [OF n, of env_online]
  show ?thesis unfolding list_all_iff by simp
qed

end
